theory Spec2Isabelle
  imports Complex_Main "HOL-Library.Word" "HOL-Library.List_Lexorder"
begin

unbundle bit_operations_syntax

section \<open>Python values\<close>

text \<open>
  A Python \<open>str\<close> is the list of its code points, so that \<open>len\<close> counts what Python
  counts; \<open>bytes\<close> are lists of 8-bit words. \<open>ustr\<close> turns an ASCII literal of the
  theory into a \<open>str\<close>.
\<close>

type_synonym pystr = "nat list"
type_synonym bytes = "8 word list"

definition ustr :: "string \<Rightarrow> pystr" where
  "ustr s = map of_char s"

datatype py_error =
  ValueError | TypeError | AttributeError | KeyError | IndexError
  | JSONDecodeError | UnicodeEncodeError | ZeroDivisionError | OtherError

text \<open>
  A computation that may raise is a value of \<open>py_error + 'a\<close>; \<open>on_ok r f\<close> goes on with
  \<open>f\<close> when \<open>r\<close> returned and passes the exception on otherwise.
\<close>

definition on_ok :: "py_error + 'a \<Rightarrow> ('a \<Rightarrow> py_error + 'b) \<Rightarrow> py_error + 'b" where
  "on_ok r f = (case r of Inl e \<Rightarrow> Inl e | Inr x \<Rightarrow> f x)"

text \<open>A float is a finite binary fraction \<open>m * 2^e\<close>, an infinity or a NaN.\<close>

datatype pyfloat = Finite int int | PosInf | NegInf | NaN

text \<open>
  The values that \<open>json.loads\<close> and \<open>request.json()\<close> produce: \<open>JNull\<close> is Python's
  \<open>None\<close>, \<open>JObj\<close> a \<open>dict\<close> in insertion order, looked up by first match.
\<close>

datatype json =
  JNull | JBool bool | JInt int | JFloat pyfloat | JStr pystr
  | JArr "json list" | JObj "(pystr \<times> json) list"

fun py_truthy :: "json \<Rightarrow> bool" where
  "py_truthy JNull = False"
| "py_truthy (JBool b) = b"
| "py_truthy (JInt n) = (n \<noteq> 0)"
| "py_truthy (JFloat (Finite m e)) = (m \<noteq> 0)"
| "py_truthy (JFloat f) = True"
| "py_truthy (JStr s) = (s \<noteq> [])"
| "py_truthy (JArr xs) = (xs \<noteq> [])"
| "py_truthy (JObj kvs) = (kvs \<noteq> [])"

text \<open>\<open>d.get(k, default)\<close>: an \<open>AttributeError\<close> on anything but a \<open>dict\<close>.\<close>

fun py_get :: "json \<Rightarrow> pystr \<Rightarrow> json \<Rightarrow> py_error + json" where
  "py_get (JObj kvs) k dflt = (case map_of kvs k of None \<Rightarrow> Inr dflt | Some v \<Rightarrow> Inr v)"
| "py_get _ k dflt = Inl AttributeError"

text \<open>\<open>str.isspace\<close> on one code point, as \<open>str.strip()\<close> uses it.\<close>

definition py_isspace :: "nat \<Rightarrow> bool" where
  "py_isspace c \<longleftrightarrow>
     (9 \<le> c \<and> c \<le> 13) \<or> (28 \<le> c \<and> c \<le> 32) \<or> c = 0x85 \<or> c = 0xA0 \<or> c = 0x1680
     \<or> (0x2000 \<le> c \<and> c \<le> 0x200A) \<or> c = 0x2028 \<or> c = 0x2029 \<or> c = 0x202F
     \<or> c = 0x205F \<or> c = 0x3000"

definition py_strip :: "pystr \<Rightarrow> pystr" where
  "py_strip s = rev (dropWhile py_isspace (rev (dropWhile py_isspace s)))"

text \<open>
  \<open>int(s)\<close> on a \<open>str\<close>, base 10, as CPython 3.11 computes it. The white space that
  \<open>int\<close> skips at both ends is the ASCII one (tab to carriage return, space) and the
  white space beyond ASCII; the separators U+001C to U+001F, which \<open>str.strip()\<close>
  removes, are not skipped.
\<close>

definition int_isspace :: "nat \<Rightarrow> bool" where
  "int_isspace c \<longleftrightarrow> py_isspace c \<and> \<not> (28 \<le> c \<and> c \<le> 31)"

definition int_strip :: "pystr \<Rightarrow> pystr" where
  "int_strip s = rev (dropWhile int_isspace (rev (dropWhile int_isspace s)))"

text \<open>
  A digit is any code point of the category Nd. In Unicode 14.0, the version of
  CPython 3.11, these are 66 runs of ten code points with the values 0 to 9 in order;
  \<open>digit_zeros\<close> lists the code point of the zero of each run.
\<close>

definition digit_zeros :: "nat list" where
  "digit_zeros =
     [
      48, 1632, 1776, 1984, 2406, 2534, 2662, 2790, 2918, 3046,
      3174, 3302, 3430, 3558, 3664, 3792, 3872, 4160, 4240, 6112,
      6160, 6470, 6608, 6784, 6800, 6992, 7088, 7232, 7248, 42528,
      43216, 43264, 43472, 43504, 43600, 44016, 65296, 66720, 68912, 69734,
      69872, 69942, 70096, 70384, 70736, 70864, 71248, 71360, 71472, 71904,
      72016, 72784, 73040, 73120, 92768, 92864, 93008, 120782, 120792, 120802,
      120812, 120822, 123200, 123632, 125264, 130032
     ]"

definition digit_value :: "nat \<Rightarrow> nat option" where
  "digit_value c = map_option (\<lambda>z. c - z) (find (\<lambda>z. z \<le> c \<and> c < z + 10) digit_zeros)"

text \<open>
  The digits of a literal from its second character on: an underscore must be followed
  by a digit.
\<close>

fun digits_of :: "pystr \<Rightarrow> nat list option" where
  "digits_of [] = Some []"
| "digits_of (c # r) =
     (if c = 95 then
        (case r of
           [] \<Rightarrow> None
         | c' # r' \<Rightarrow>
             (case digit_value c' of
                None \<Rightarrow> None
              | Some d \<Rightarrow> map_option ((#) d) (digits_of r')))
      else
        (case digit_value c of
           None \<Rightarrow> None
         | Some d \<Rightarrow> map_option ((#) d) (digits_of r)))"

text \<open>
  The default of \<open>sys.get_int_max_str_digits()\<close>; \<open>api.py\<close> does not change it. A
  literal with more digits is a \<open>ValueError\<close>.
\<close>

definition max_str_digits :: nat where
  "max_str_digits = 4300"

text \<open>An unsigned literal: it starts with a digit.\<close>

definition py_dec :: "pystr \<Rightarrow> int option" where
  "py_dec s =
     (case s of
        [] \<Rightarrow> None
      | c # r \<Rightarrow>
          (case digit_value c of
             None \<Rightarrow> None
           | Some d0 \<Rightarrow>
               (case digits_of (c # r) of
                  None \<Rightarrow> None
                | Some ds \<Rightarrow>
                    if length ds > max_str_digits then None
                    else Some (foldl (\<lambda>acc d. 10 * acc + int d) 0 ds))))"

text \<open>
  \<open>int(s)\<close>: surrounding white space, one optional sign, then the literal; \<open>None\<close> is
  the \<open>ValueError\<close>.
\<close>

definition py_int :: "pystr \<Rightarrow> int option" where
  "py_int s =
     (case int_strip s of
        [] \<Rightarrow> None
      | c # r \<Rightarrow>
          if c = 45 then map_option uminus (py_dec r)
          else if c = 43 then py_dec r
          else py_dec (c # r))"

section \<open>UTF-8\<close>

definition utf8_encode_cp :: "nat \<Rightarrow> py_error + bytes" where
  "utf8_encode_cp c =
     (if c < 0x80 then Inr [of_nat c]
      else if c < 0x800 then Inr [of_nat (0xC0 + c div 64), of_nat (0x80 + c mod 64)]
      else if 0xD800 \<le> c \<and> c \<le> 0xDFFF then Inl UnicodeEncodeError
      else if c < 0x10000 then
        Inr [of_nat (0xE0 + c div 4096), of_nat (0x80 + c div 64 mod 64), of_nat (0x80 + c mod 64)]
      else if c < 0x110000 then
        Inr [of_nat (0xF0 + c div 262144), of_nat (0x80 + c div 4096 mod 64),
             of_nat (0x80 + c div 64 mod 64), of_nat (0x80 + c mod 64)]
      else Inl UnicodeEncodeError)"

text \<open>\<open>s.encode('utf-8')\<close>: a surrogate code point raises.\<close>

fun utf8_encode :: "pystr \<Rightarrow> py_error + bytes" where
  "utf8_encode [] = Inr []"
| "utf8_encode (c # r) =
     on_ok (utf8_encode_cp c) (\<lambda>bs. on_ok (utf8_encode r) (\<lambda>bs'. Inr (bs @ bs')))"

definition is_cont :: "nat \<Rightarrow> bool" where
  "is_cont b \<longleftrightarrow> 0x80 \<le> b \<and> b \<le> 0xBF"

text \<open>The range of the second byte after the lead byte \<open>b\<close> of a 3- or 4-byte sequence.\<close>

definition second_ok :: "nat \<Rightarrow> nat \<Rightarrow> bool" where
  "second_ok b c \<longleftrightarrow>
     (if b = 0xE0 then 0xA0 \<le> c \<and> c \<le> 0xBF
      else if b = 0xED then 0x80 \<le> c \<and> c \<le> 0x9F
      else if b = 0xF0 then 0x90 \<le> c \<and> c \<le> 0xBF
      else if b = 0xF4 then 0x80 \<le> c \<and> c \<le> 0x8F
      else is_cont c)"

text \<open>
  \<open>bs.decode('utf-8', 'replace')\<close> on the byte values: every ill-formed maximal subpart
  becomes one U+FFFD and decoding resumes behind it.
\<close>

fun utf8_decode :: "nat list \<Rightarrow> pystr" where
  "utf8_decode [] = []"
| "utf8_decode (b # r) =
     (if b < 0x80 then b # utf8_decode r
      else if 0xC2 \<le> b \<and> b \<le> 0xDF then
        (case r of
           c # r1 \<Rightarrow> if is_cont c then ((b - 0xC0) * 64 + (c - 0x80)) # utf8_decode r1
                     else 0xFFFD # utf8_decode r
         | [] \<Rightarrow> [0xFFFD])
      else if 0xE0 \<le> b \<and> b \<le> 0xEF then
        (case r of
           c # r1 \<Rightarrow>
             if second_ok b c then
               (case r1 of
                  d # r2 \<Rightarrow>
                    if is_cont d
                    then ((b - 0xE0) * 4096 + (c - 0x80) * 64 + (d - 0x80)) # utf8_decode r2
                    else 0xFFFD # utf8_decode r1
                | [] \<Rightarrow> [0xFFFD])
             else 0xFFFD # utf8_decode r
         | [] \<Rightarrow> [0xFFFD])
      else if 0xF0 \<le> b \<and> b \<le> 0xF4 then
        (case r of
           c # r1 \<Rightarrow>
             if second_ok b c then
               (case r1 of
                  d # r2 \<Rightarrow>
                    if is_cont d then
                      (case r2 of
                         e # r3 \<Rightarrow>
                           if is_cont e
                           then ((b - 0xF0) * 262144 + (c - 0x80) * 4096 + (d - 0x80) * 64
                                  + (e - 0x80)) # utf8_decode r3
                           else 0xFFFD # utf8_decode r2
                       | [] \<Rightarrow> [0xFFFD])
                    else 0xFFFD # utf8_decode r1
                | [] \<Rightarrow> [0xFFFD])
             else 0xFFFD # utf8_decode r
         | [] \<Rightarrow> [0xFFFD])
      else 0xFFFD # utf8_decode r)"

section \<open>urllib.parse\<close>

definition hex_val :: "nat \<Rightarrow> nat option" where
  "hex_val c =
     (if 48 \<le> c \<and> c \<le> 57 then Some (c - 48)
      else if 65 \<le> c \<and> c \<le> 70 then Some (c - 55)
      else if 97 \<le> c \<and> c \<le> 102 then Some (c - 87)
      else None)"

text \<open>
  \<open>unquote_to_bytes\<close> on an ASCII run: \<open>%XX\<close> with two hexadecimal digits is one byte,
  any other \<open>%\<close> stays.
\<close>

fun percent_decode :: "pystr \<Rightarrow> nat list" where
  "percent_decode [] = []"
| "percent_decode [c] = [c]"
| "percent_decode [c, a] = [c, a]"
| "percent_decode (c # a # b # r) =
     (if c = 37 then
        (case (hex_val a, hex_val b) of
           (Some h, Some l) \<Rightarrow> (16 * h + l) # percent_decode r
         | _ \<Rightarrow> c # percent_decode (a # b # r))
      else c # percent_decode (a # b # r))"

text \<open>
  The runs of \<open>unquote\<close>: ASCII runs are percent-decoded and decoded as UTF-8 with
  \<open>errors='replace'\<close>, the characters between them are kept.
\<close>

fun unquote_runs :: "pystr \<Rightarrow> pystr \<Rightarrow> pystr" where
  "unquote_runs run [] = utf8_decode (percent_decode run)"
| "unquote_runs run (c # r) =
     (if c < 0x80 then unquote_runs (run @ [c]) r
      else utf8_decode (percent_decode run) @ c # unquote_runs [] r)"

definition unquote :: "pystr \<Rightarrow> pystr" where
  "unquote s = (if 37 \<notin> set s then s else unquote_runs [] s)"

text \<open>\<open>s.split(sep)\<close> and \<open>s.split(sep, 1)\<close> for a one-character separator.\<close>

fun split_on :: "nat \<Rightarrow> pystr \<Rightarrow> pystr list" where
  "split_on sep [] = [[]]"
| "split_on sep (c # r) =
     (if c = sep then [] # split_on sep r
      else (case split_on sep r of p # ps \<Rightarrow> (c # p) # ps | [] \<Rightarrow> [[c]]))"

definition split_once :: "nat \<Rightarrow> pystr \<Rightarrow> pystr \<times> pystr option" where
  "split_once sep s =
     (takeWhile (\<lambda>c. c \<noteq> sep) s,
      case dropWhile (\<lambda>c. c \<noteq> sep) s of [] \<Rightarrow> None | _ # r \<Rightarrow> Some r)"

definition plus_to_space :: "pystr \<Rightarrow> pystr" where
  "plus_to_space s = map (\<lambda>c. if c = 43 then 32 else c) s"

text \<open>
  \<open>parse_qsl(qs)\<close> with its defaults (\<open>keep_blank_values=False\<close>,
  \<open>strict_parsing=False\<close>, separator \<open>&\<close>): empty fields, fields without \<open>=\<close> and
  fields with an empty value are dropped.
\<close>

definition parse_field :: "pystr \<Rightarrow> (pystr \<times> pystr) list" where
  "parse_field name_value =
     (if name_value = [] then []
      else case split_once 61 name_value of
             (n, None) \<Rightarrow> []
           | (n, Some v) \<Rightarrow>
               if v = [] then [] else [(unquote (plus_to_space n), unquote (plus_to_space v))])"

definition parse_qsl :: "pystr \<Rightarrow> (pystr \<times> pystr) list" where
  "parse_qsl qs = (if qs = [] then [] else concat (map parse_field (split_on 38 qs)))"

text \<open>\<open>parse_qs\<close>: the dictionary from each name to the list of its values, in order.\<close>

fun dict_append :: "(pystr \<times> pystr list) list \<Rightarrow> pystr \<Rightarrow> pystr \<Rightarrow> (pystr \<times> pystr list) list" where
  "dict_append [] k v = [(k, [v])]"
| "dict_append ((k', vs) # d) k v =
     (if k' = k then (k', vs @ [v]) # d else (k', vs) # dict_append d k v)"

definition parse_qs :: "pystr \<Rightarrow> (pystr \<times> pystr list) list" where
  "parse_qs qs = foldl (\<lambda>d (k, v). dict_append d k v) [] (parse_qsl qs)"

section \<open>SHA-256 and HMAC (hashlib, hmac)\<close>

text \<open>The round constants and the initial hash value of FIPS 180-4, in decimal.\<close>

definition K256 :: "32 word list" where
  "K256 =
     [1116352408, 1899447441, 3049323471, 3921009573, 961987163, 1508970993,
      2453635748, 2870763221, 3624381080, 310598401, 607225278, 1426881987,
      1925078388, 2162078206, 2614888103, 3248222580, 3835390401, 4022224774,
      264347078, 604807628, 770255983, 1249150122, 1555081692, 1996064986,
      2554220882, 2821834349, 2952996808, 3210313671, 3336571891, 3584528711,
      113926993, 338241895, 666307205, 773529912, 1294757372, 1396182291,
      1695183700, 1986661051, 2177026350, 2456956037, 2730485921, 2820302411,
      3259730800, 3345764771, 3516065817, 3600352804, 4094571909, 275423344,
      430227734, 506948616, 659060556, 883997877, 958139571, 1322822218,
      1537002063, 1747873779, 1955562222, 2024104815, 2227730452, 2361852424,
      2428436474, 2756734187, 3204031479, 3329325298]"

definition H256 :: "32 word list" where
  "H256 =
     [1779033703, 3144134277, 1013904242, 2773480762,
      1359893119, 2600822924, 528734635, 1541459225]"

definition rotr :: "nat \<Rightarrow> 32 word \<Rightarrow> 32 word" where
  "rotr n x = drop_bit n x OR push_bit (32 - n) x"

definition ssig0 :: "32 word \<Rightarrow> 32 word" where
  "ssig0 x = rotr 7 x XOR rotr 18 x XOR drop_bit 3 x"

definition ssig1 :: "32 word \<Rightarrow> 32 word" where
  "ssig1 x = rotr 17 x XOR rotr 19 x XOR drop_bit 10 x"

definition bsig0 :: "32 word \<Rightarrow> 32 word" where
  "bsig0 x = rotr 2 x XOR rotr 13 x XOR rotr 22 x"

definition bsig1 :: "32 word \<Rightarrow> 32 word" where
  "bsig1 x = rotr 6 x XOR rotr 11 x XOR rotr 25 x"

definition be32 :: "32 word \<Rightarrow> bytes" where
  "be32 w = map (\<lambda>k. ucast (drop_bit (8 * k) w)) [3, 2, 1, 0]"

definition be64 :: "64 word \<Rightarrow> bytes" where
  "be64 w = map (\<lambda>k. ucast (drop_bit (8 * k) w)) [7, 6, 5, 4, 3, 2, 1, 0]"

definition sha_pad :: "bytes \<Rightarrow> bytes" where
  "sha_pad m = m @ [0x80] @ replicate ((119 - length m mod 64) mod 64) 0
                 @ be64 (8 * word_of_nat (length m))"

fun be_words :: "bytes \<Rightarrow> 32 word list" where
  "be_words (a # b # c # d # r) =
     (push_bit 24 (ucast a) OR push_bit 16 (ucast b) OR push_bit 8 (ucast c) OR ucast d) # be_words r"
| "be_words _ = []"

definition schedule :: "32 word list \<Rightarrow> 32 word list" where
  "schedule w16 =
     foldl (\<lambda>w i. w @ [ssig1 (w ! (i - 2)) + w ! (i - 7) + ssig0 (w ! (i - 15)) + w ! (i - 16)])
       w16 [16..<64]"

type_synonym sha_state =
  "32 word \<times> 32 word \<times> 32 word \<times> 32 word \<times> 32 word \<times> 32 word \<times> 32 word \<times> 32 word"

definition sha_round :: "32 word list \<Rightarrow> sha_state \<Rightarrow> nat \<Rightarrow> sha_state" where
  "sha_round w s i = (case s of (a, b, c, d, e, f, g, h) \<Rightarrow>
     let t1 = h + bsig1 e + ((e AND f) XOR (NOT e AND g)) + K256 ! i + w ! i;
         t2 = bsig0 a + ((a AND b) XOR (a AND c) XOR (b AND c))
     in (t1 + t2, a, b, c, d + t1, e, f, g))"

definition compress :: "32 word list \<Rightarrow> bytes \<Rightarrow> 32 word list" where
  "compress hs block =
     (let w = schedule (be_words block);
          s0 = (hs ! 0, hs ! 1, hs ! 2, hs ! 3, hs ! 4, hs ! 5, hs ! 6, hs ! 7)
      in case foldl (sha_round w) s0 [0..<64] of (a, b, c, d, e, f, g, h) \<Rightarrow>
           map2 (+) hs [a, b, c, d, e, f, g, h])"

definition sha256 :: "bytes \<Rightarrow> bytes" where
  "sha256 m =
     (let p = sha_pad m;
          blocks = map (\<lambda>i. take 64 (drop (64 * i) p)) [0..<length p div 64]
      in concat (map be32 (foldl compress H256 blocks)))"

text \<open>\<open>hmac.new(key, msg, hashlib.sha256).digest()\<close>\<close>

definition hmac_sha256 :: "bytes \<Rightarrow> bytes \<Rightarrow> bytes" where
  "hmac_sha256 key msg =
     (let k0 = (if length key > 64 then sha256 key else key);
          k = k0 @ replicate (64 - length k0) 0
      in sha256 (map (\<lambda>b. b XOR 0x5c) k @ sha256 (map (\<lambda>b. b XOR 0x36) k @ msg)))"

definition hex_digit :: "8 word \<Rightarrow> char" where
  "hex_digit n = ''0123456789abcdef'' ! unat n"

text \<open>\<open>.hexdigest()\<close> of a digest\<close>

definition hexlify :: "bytes \<Rightarrow> pystr" where
  "hexlify bs = ustr (concat (map (\<lambda>b. [hex_digit (drop_bit 4 b), hex_digit (b AND 0x0f)]) bs))"

section \<open>Configuration and collaborators\<close>

text \<open>
  What \<open>api.py\<close> imports or reads from outside: the bot token of \<open>config\<close>, the
  reading of the clock at the time of the call (\<open>int(datetime.now().timestamp())\<close>, a
  read of the world outside the function), \<open>json.loads\<close> (\<open>None\<close> is its
  \<open>JSONDecodeError\<close>), the compiled pattern \<open>FORBIDDEN_KEYWORDS\<close> through the truth
  value of its \<open>search\<close>, \<open>utils.generate_tarot_cards\<close> and \<open>json.dumps\<close>.
\<close>

record env =
  BOT_TOKEN :: pystr
  now :: int
  json_loads :: "pystr \<Rightarrow> json option"
  forbidden_search :: "pystr \<Rightarrow> bool"
  generate_tarot_cards :: "json \<Rightarrow> py_error + json"
  json_dumps :: "json \<Rightarrow> pystr"

section \<open>verify_telegram_init_data\<close>

text \<open>
  The records that the function hands to the logger, at \<open>api.py\<close> lines 42, 71, 80 and
  98, each with the values that its message is formatted from: the first sixteen
  characters of the two hashes, the age of the token in seconds, the exception caught.
\<close>

datatype log_record =
  Warning_no_hash
  | Warning_hash_mismatch pystr pystr
  | Warning_auth_date_too_old int
  | Error_verifying py_error

record session =
  user :: json
  auth_date :: "pystr option"
  query_id :: "pystr option"
  chat_type :: "pystr option"
  chat_instance :: "pystr option"

text \<open>\<open>parsed.get(k, [None])[0]\<close>\<close>

definition first_value :: "(pystr \<times> pystr list) list \<Rightarrow> pystr \<Rightarrow> py_error + pystr option" where
  "first_value parsed k =
     (case map_of parsed k of
        None \<Rightarrow> Inr None
      | Some [] \<Rightarrow> Inl IndexError
      | Some (v # _) \<Rightarrow> Inr (Some v))"

text \<open>The loop over \<open>parsed.items()\<close> that fills \<open>data_pairs\<close>.\<close>

fun data_pairs :: "(pystr \<times> pystr list) list \<Rightarrow> py_error + pystr list" where
  "data_pairs [] = Inr []"
| "data_pairs ((key, vals) # rest) =
     (if key \<noteq> ustr ''hash'' then
        (case vals of
           [] \<Rightarrow> Inl IndexError
         | v # _ \<Rightarrow> on_ok (data_pairs rest) (\<lambda>ps. Inr ((key @ ustr ''='' @ v) # ps)))
      else data_pairs rest)"

fun join :: "pystr \<Rightarrow> pystr list \<Rightarrow> pystr" where
  "join sep [] = []"
| "join sep [x] = x"
| "join sep (x # y # r) = x @ sep @ join sep (y # r)"

definition data_check_string :: "pystr list \<Rightarrow> pystr" where
  "data_check_string pairs = join [10] (sort pairs)"

text \<open>
  \<open>secret_key\<close> and \<open>calculated_hash\<close>: the token and the check-string are encoded as
  UTF-8 first.
\<close>

definition calculated_hash :: "pystr \<Rightarrow> pystr \<Rightarrow> py_error + pystr" where
  "calculated_hash token dcs =
     on_ok (utf8_encode token) (\<lambda>token_bytes.
     on_ok (utf8_encode dcs) (\<lambda>dcs_bytes.
       Inr (hexlify (hmac_sha256 (hmac_sha256 (map of_char ''WebAppData'') token_bytes)
                       dcs_bytes))))"

text \<open>\<open>hmac.compare_digest\<close> on two \<open>str\<close>: a \<open>TypeError\<close> unless both are ASCII.\<close>

definition compare_digest :: "pystr \<Rightarrow> pystr \<Rightarrow> py_error + bool" where
  "compare_digest a b =
     (if (\<forall>c \<in> set a. c < 0x80) \<and> (\<forall>c \<in> set b. c < 0x80) then Inr (a = b) else Inl TypeError)"

text \<open>The truth value of an optional \<open>str\<close> (\<open>None\<close> and \<open>''\<close> are false).\<close>

definition str_truthy :: "pystr option \<Rightarrow> bool" where
  "str_truthy v \<longleftrightarrow> (case v of None \<Rightarrow> False | Some s \<Rightarrow> s \<noteq> [])"

definition str_or_empty :: "pystr option \<Rightarrow> pystr" where
  "str_or_empty v = (case v of None \<Rightarrow> [] | Some s \<Rightarrow> s)"

text \<open>
  The \<open>auth_date\<close> test: the age \<open>now - auth_date\<close> when the token is too old, \<open>None\<close>
  when it is not or carries no date.
\<close>

definition auth_date_expired :: "env \<Rightarrow> pystr option \<Rightarrow> py_error + int option" where
  "auth_date_expired env auth_date_str =
     (if str_truthy auth_date_str then
        (case py_int (str_or_empty auth_date_str) of
           None \<Rightarrow> Inl ValueError
         | Some a \<Rightarrow> Inr (if now env - a > 86400 then Some (now env - a) else None))
      else Inr None)"

definition parse_user :: "env \<Rightarrow> pystr option \<Rightarrow> py_error + json" where
  "parse_user env user_str =
     (if str_truthy user_str then
        (case json_loads env (str_or_empty user_str) of
           None \<Rightarrow> Inl JSONDecodeError
         | Some j \<Rightarrow> Inr j)
      else Inr JNull)"

text \<open>
  The body of the \<open>try\<close> block: \<open>Inl\<close> is an exception raised inside it, \<open>Inr\<close> the
  value returned together with the records logged on the way.
\<close>

definition verify_body ::
  "env \<Rightarrow> pystr \<Rightarrow> py_error + ((bool \<times> session option) \<times> log_record list)" where
  "verify_body env init_data =
     (if init_data = [] then Inr ((False, None), [])
      else
        let parsed = parse_qs init_data in
        on_ok (first_value parsed (ustr ''hash'')) (\<lambda>received_hash.
        if \<not> str_truthy received_hash then Inr ((False, None), [Warning_no_hash])
        else
          on_ok (data_pairs parsed) (\<lambda>pairs.
          on_ok (calculated_hash (BOT_TOKEN env) (data_check_string pairs)) (\<lambda>calc.
          on_ok (compare_digest calc (str_or_empty received_hash)) (\<lambda>same.
          if \<not> same then
            Inr ((False, None),
                 [Warning_hash_mismatch (take 16 calc) (take 16 (str_or_empty received_hash))])
          else
            on_ok (first_value parsed (ustr ''auth_date'')) (\<lambda>auth_date_str.
            on_ok (auth_date_expired env auth_date_str) (\<lambda>expired.
            case expired of
              Some age \<Rightarrow> Inr ((False, None), [Warning_auth_date_too_old age])
            | None \<Rightarrow>
              on_ok (first_value parsed (ustr ''user'')) (\<lambda>user_str.
              on_ok (parse_user env user_str) (\<lambda>user_data.
              on_ok (first_value parsed (ustr ''query_id'')) (\<lambda>qid.
              on_ok (first_value parsed (ustr ''chat_type'')) (\<lambda>ctype.
              on_ok (first_value parsed (ustr ''chat_instance'')) (\<lambda>cinst.
                Inr ((True, Some \<lparr>user = user_data, auth_date = auth_date_str,
                                  query_id = qid, chat_type = ctype,
                                  chat_instance = cinst\<rparr>), [])))))))))))))"

text \<open>
  The function with its \<open>except Exception\<close>: every exception is logged as an error and
  answered with \<open>(False, None)\<close>. \<open>verify_logged\<close> is the whole of what a call does, the
  value returned and the records logged; \<open>verify_telegram_init_data\<close> is the value that
  the caller receives.
\<close>

definition verify_logged :: "env \<Rightarrow> pystr \<Rightarrow> (bool \<times> session option) \<times> log_record list" where
  "verify_logged env init_data =
     (case verify_body env init_data of
        Inl e \<Rightarrow> ((False, None), [Error_verifying e])
      | Inr r \<Rightarrow> r)"

definition verify_telegram_init_data :: "env \<Rightarrow> pystr \<Rightarrow> bool \<times> session option" where
  "verify_telegram_init_data env init_data = fst (verify_logged env init_data)"

section \<open>get_user_id_from_request\<close>

text \<open>
  A request: its headers and query parameters in the order received (\<open>.get\<close> is the
  first match) and what \<open>await request.json()\<close> gives, \<open>None\<close> when it raises.
\<close>

record request =
  headers :: "(pystr \<times> pystr) list"
  query :: "(pystr \<times> pystr) list"
  body :: "json option"

text \<open>
  \<open>request.headers\<close> is a case-insensitive multi-dictionary: \<open>request.headers.get(name)\<close>
  is the value of the first header whose name is \<open>name\<close> up to the case of its letters.
  Header names are ASCII. \<open>request.query\<close> compares its keys exactly.
\<close>

definition ascii_lower :: "nat \<Rightarrow> nat" where
  "ascii_lower c = (if 65 \<le> c \<and> c \<le> 90 then c + 32 else c)"

definition header_get :: "(pystr \<times> pystr) list \<Rightarrow> pystr \<Rightarrow> pystr option" where
  "header_get hs name =
     map_of (map (\<lambda>(k, v). (map ascii_lower k, v)) hs) (map ascii_lower name)"

text \<open>
  The three sources in order. \<open>Inl\<close> is the \<open>AttributeError\<close> of \<open>.get\<close> on a user
  value that is no dictionary; the \<open>ValueError\<close> of \<open>int\<close> is caught in place.
\<close>

definition get_user_id_from_request :: "env \<Rightarrow> request \<Rightarrow> py_error + json" where
  "get_user_id_from_request env req =
     (let init_data = (case header_get (headers req) (ustr ''X-Telegram-Init-Data'') of
                         None \<Rightarrow> [] | Some s \<Rightarrow> s);
          from_init = (if init_data \<noteq> [] then
                         (case verify_telegram_init_data env init_data of
                            (True, Some data) \<Rightarrow>
                              if py_truthy (user data) then Some (py_get (user data) (ustr ''id'') JNull)
                              else None
                          | _ \<Rightarrow> None)
                       else None);
          from_header = (case header_get (headers req) (ustr ''X-User-Id'') of
                           None \<Rightarrow> None
                         | Some h \<Rightarrow> if h = [] then None else py_int h);
          from_query = (case map_of (query req) (ustr ''user_id'') of
                          None \<Rightarrow> None
                        | Some q \<Rightarrow> if q = [] then None else py_int q)
      in case from_init of
           Some r \<Rightarrow> r
         | None \<Rightarrow>
             (case from_header of
                Some n \<Rightarrow> Inr (JInt n)
              | None \<Rightarrow>
                  (case from_query of
                     Some n \<Rightarrow> Inr (JInt n)
                   | None \<Rightarrow> Inr JNull)))"

definition check_forbidden_keywords :: "env \<Rightarrow> pystr \<Rightarrow> bool" where
  "check_forbidden_keywords env text = (if forbidden_search env text then True else False)"

section \<open>The repository\<close>

text \<open>
  The handlers reach the repository only through the methods of the object \<open>db\<close> of
  \<open>database.py\<close>, which is not among the sources. They are parameters here: a repository
  is the record of the methods that \<open>api.py\<close> calls, over any type of states. A user is
  returned as the row of section 3 of the specification, a history entry as its
  interaction record.
\<close>

record user_row =
  username :: json
  requests_left :: int
  premium_requests :: int
  is_banned :: bool
  agreed_rules :: bool
  forbidden_attempts :: int

record interaction =
  i_user_id :: json
  i_question :: pystr
  i_cards :: pystr
  i_response :: json
  i_reading_type :: json
  i_is_premium :: json

record 'd repo =
  get_user :: "'d \<Rightarrow> json \<Rightarrow> user_row option"
  increment_forbidden_attempts :: "'d \<Rightarrow> json \<Rightarrow> 'd"
  use_free_request :: "'d \<Rightarrow> json \<Rightarrow> 'd"
  use_premium_request :: "'d \<Rightarrow> json \<Rightarrow> 'd"
  add_history :: "'d \<Rightarrow> interaction \<Rightarrow> 'd"
  get_history :: "'d \<Rightarrow> json \<Rightarrow> int \<Rightarrow> int \<Rightarrow> interaction list"
  get_total_history_count :: "'d \<Rightarrow> json \<Rightarrow> int"
  get_user_payments :: "'d \<Rightarrow> json \<Rightarrow> int \<Rightarrow> int \<Rightarrow> json list"

subsection \<open>The repository of the specification\<close>

text \<open>
  Modelled from the spec: the state of the repository, which \<open>database.py\<close> keeps and the
  sources do not show. Section 3 of the specification gives the user rows (found under
  the caller id as the handler passes it on), the append-only history and the payments.
\<close>

record store =
  users :: "json \<Rightarrow> user_row option"
  history :: "interaction list"
  payments :: "(json \<times> json) list"

text \<open>Modelled from the spec: \<open>db.get_user\<close>, the row of a user or nothing.\<close>

definition spec_get_user :: "store \<Rightarrow> json \<Rightarrow> user_row option" where
  "spec_get_user d uid = users d uid"

text \<open>
  Modelled from the spec: \<open>db.increment_forbidden_attempts\<close>, section 4.2: ``increment a
  per-user violation counter''.
\<close>

definition spec_increment_forbidden_attempts :: "store \<Rightarrow> json \<Rightarrow> store" where
  "spec_increment_forbidden_attempts d uid =
     (case users d uid of
        None \<Rightarrow> d
      | Some u \<Rightarrow> d\<lparr>users := (users d)(uid \<mapsto> u\<lparr>forbidden_attempts := forbidden_attempts u + 1\<rparr>)\<rparr>)"

text \<open>
  Modelled from the spec: \<open>db.use_free_request\<close> and \<open>db.use_premium_request\<close>, section
  4.3: ``decrements the chosen counter by exactly 1'', and section 9: ``an unconditional
  decrement''.
\<close>

definition spec_use_free_request :: "store \<Rightarrow> json \<Rightarrow> store" where
  "spec_use_free_request d uid =
     (case users d uid of
        None \<Rightarrow> d
      | Some u \<Rightarrow> d\<lparr>users := (users d)(uid \<mapsto> u\<lparr>requests_left := requests_left u - 1\<rparr>)\<rparr>)"

definition spec_use_premium_request :: "store \<Rightarrow> json \<Rightarrow> store" where
  "spec_use_premium_request d uid =
     (case users d uid of
        None \<Rightarrow> d
      | Some u \<Rightarrow> d\<lparr>users := (users d)(uid \<mapsto> u\<lparr>premium_requests := premium_requests u - 1\<rparr>)\<rparr>)"

text \<open>Modelled from the spec: \<open>db.add_history\<close>, section 4.5: ``pure append''.\<close>

definition spec_add_history :: "store \<Rightarrow> interaction \<Rightarrow> store" where
  "spec_add_history d entry = d\<lparr>history := history d @ [entry]\<rparr>"

text \<open>
  Modelled from the spec: \<open>db.get_history\<close>, \<open>db.get_total_history_count\<close> and
  \<open>db.get_user_payments\<close>. The records of a user are numbered from 0 in the order of the
  repository; a query returns \<open>limit\<close> of them from number \<open>offset\<close> on (section 8:
  ``page=0, limit=10 returns records 0..9''). The specification says nothing about a
  negative limit or offset; here they count as 0.
\<close>

definition user_history :: "store \<Rightarrow> json \<Rightarrow> interaction list" where
  "user_history d uid = filter (\<lambda>h. i_user_id h = uid) (history d)"

definition spec_get_history :: "store \<Rightarrow> json \<Rightarrow> int \<Rightarrow> int \<Rightarrow> interaction list" where
  "spec_get_history d uid limit offset = take (nat limit) (drop (nat offset) (user_history d uid))"

definition spec_get_total_history_count :: "store \<Rightarrow> json \<Rightarrow> int" where
  "spec_get_total_history_count d uid = int (length (user_history d uid))"

definition spec_get_user_payments :: "store \<Rightarrow> json \<Rightarrow> int \<Rightarrow> int \<Rightarrow> json list" where
  "spec_get_user_payments d uid limit offset =
     take (nat limit) (drop (nat offset) (map snd (filter (\<lambda>p. fst p = uid) (payments d))))"

text \<open>Modelled from the spec: the repository made of these methods.\<close>

definition spec_repo :: "store repo" where
  "spec_repo =
     \<lparr>get_user = spec_get_user,
      increment_forbidden_attempts = spec_increment_forbidden_attempts,
      use_free_request = spec_use_free_request,
      use_premium_request = spec_use_premium_request,
      add_history = spec_add_history,
      get_history = spec_get_history,
      get_total_history_count = spec_get_total_history_count,
      get_user_payments = spec_get_user_payments\<rparr>"

text \<open>A history row as the dictionary the handlers read and return.\<close>

definition interaction_json :: "interaction \<Rightarrow> json" where
  "interaction_json h =
     JObj [(ustr ''user_id'', i_user_id h), (ustr ''question'', JStr (i_question h)),
           (ustr ''cards'', JStr (i_cards h)), (ustr ''response'', i_response h),
           (ustr ''reading_type'', i_reading_type h), (ustr ''is_premium'', i_is_premium h)]"

section \<open>Responses\<close>

record response =
  status :: nat
  payload :: json
  resp_headers :: "(pystr \<times> pystr) list"

definition cors_headers :: "(pystr \<times> pystr) list" where
  "cors_headers =
     [(ustr ''Access-Control-Allow-Origin'', ustr ''*''),
      (ustr ''Access-Control-Allow-Methods'', ustr ''GET, POST, PUT, DELETE, OPTIONS''),
      (ustr ''Access-Control-Allow-Headers'',
       ustr ''Content-Type, X-Telegram-Init-Data, X-User-Id, Authorization''),
      (ustr ''Access-Control-Max-Age'', ustr ''3600'')]"

text \<open>\<open>web.json_response(data, status=..., headers=cors_headers())\<close>\<close>

definition json_response :: "(pystr \<times> json) list \<Rightarrow> nat \<Rightarrow> response" where
  "json_response data st = \<lparr>status = st, payload = JObj data, resp_headers = cors_headers\<rparr>"

definition error_response :: "string \<Rightarrow> nat \<Rightarrow> response" where
  "error_response msg st =
     json_response [(ustr ''success'', JBool False), (ustr ''error'', JStr (ustr msg))] st"

text \<open>\<open>str(e)\<close> of a caught exception; the class name stands for the message.\<close>

fun exc_str :: "py_error \<Rightarrow> pystr" where
  "exc_str ValueError = ustr ''ValueError''"
| "exc_str TypeError = ustr ''TypeError''"
| "exc_str AttributeError = ustr ''AttributeError''"
| "exc_str KeyError = ustr ''KeyError''"
| "exc_str IndexError = ustr ''IndexError''"
| "exc_str JSONDecodeError = ustr ''JSONDecodeError''"
| "exc_str UnicodeEncodeError = ustr ''UnicodeEncodeError''"
| "exc_str ZeroDivisionError = ustr ''ZeroDivisionError''"
| "exc_str OtherError = ustr ''Exception''"

text \<open>The \<open>except Exception\<close> of every handler: status 500 with \<open>str(e)\<close>.\<close>

definition internal_error :: "py_error \<Rightarrow> response" where
  "internal_error e =
     json_response [(ustr ''success'', JBool False), (ustr ''error'', JStr (exc_str e))] 500"

section \<open>handle_reading\<close>

text \<open>The arguments of the call of \<open>get_tarot_response\<close>.\<close>

record gen_call =
  g_question :: pystr
  g_cards :: json
  g_is_premium :: json
  g_full_history :: pystr
  g_user_id :: json
  g_username :: json
  g_reading_type :: json

text \<open>
  The handler up to \<open>await get_tarot_response(...)\<close> either has answered or waits for the
  generator with the arguments of the call.
\<close>

datatype reading_progress = Responded response | Awaiting gen_call

definition dict_get :: "(pystr \<times> json) list \<Rightarrow> pystr \<Rightarrow> json \<Rightarrow> json" where
  "dict_get kvs k dflt = (case map_of kvs k of None \<Rightarrow> dflt | Some v \<Rightarrow> v)"

definition label_question :: pystr where
  "label_question = [1042, 1086, 1087, 1088, 1086, 1089, 58, 32]"

definition label_cards :: pystr where
  "label_cards = [1050, 1072, 1088, 1090, 1099, 58, 32]"

text \<open>The text of the key \<open>message\<close> of the forbidden-topic answer.\<close>

definition forbidden_message :: pystr where
  "forbidden_message =
     [1042, 1086, 1087, 1088, 1086, 1089, 32, 1089, 1086, 1076, 1077, 1088, 1078, 1080, 1090, 32,
      1079, 1072, 1087, 1088, 1077, 1097, 1105, 1085, 1085, 1099, 1077, 32, 1090, 1077, 1084,
      1099, 46, 32, 1055, 1086, 1078, 1072, 1083, 1091, 1081, 1089, 1090, 1072, 44, 32, 1080,
      1079, 1073, 1077, 1075, 1072, 1081, 1090, 1077, 32, 1074, 1086, 1087, 1088, 1086, 1089,
      1086, 1074, 32, 1086, 32, 1073, 1086, 1083, 1077, 1079, 1085, 1103, 1093, 44, 32, 1089,
      1084, 1077, 1088, 1090, 1080, 32, 1080, 32, 1076, 1088, 1091, 1075, 1080, 1093, 32, 1076,
      1077, 1083, 1080, 1082, 1072, 1090, 1085, 1099, 1093, 32, 1090, 1077, 1084, 46]"

text \<open>The loop that builds \<open>history_context\<close>.\<close>

definition history_context :: "interaction list \<Rightarrow> pystr" where
  "history_context hs =
     concat (map (\<lambda>h. label_question @ i_question h @ [10] @ label_cards @ i_cards h @ [10, 10]) hs)"

text \<open>
  \<open>cards_from_frontend and len(cards_from_frontend) > 0\<close>: a true value without a length
  raises a \<open>TypeError\<close>.
\<close>

fun frontend_cards_given :: "json \<Rightarrow> py_error + bool" where
  "frontend_cards_given (JStr s) = Inr (s \<noteq> [])"
| "frontend_cards_given (JArr xs) = Inr (xs \<noteq> [])"
| "frontend_cards_given (JObj kvs) = Inr (kvs \<noteq> [])"
| "frontend_cards_given v = (if py_truthy v then Inl TypeError else Inr False)"

definition choose_cards :: "env \<Rightarrow> json \<Rightarrow> json \<Rightarrow> py_error + json" where
  "choose_cards env cards_from_frontend cards_count =
     on_ok (frontend_cards_given cards_from_frontend) (\<lambda>given.
       if given then Inr cards_from_frontend else generate_tarot_cards env cards_count)"

text \<open>The balance check on the chosen counter.\<close>

definition balance_error :: "json \<Rightarrow> user_row \<Rightarrow> response option" where
  "balance_error use_premium u =
     (if py_truthy use_premium then
        (if premium_requests u \<le> 0 then Some (error_response ''no_premium_requests'' 400) else None)
      else
        (if requests_left u \<le> 0 then Some (error_response ''no_free_requests'' 400) else None))"

definition reading_pre_body ::
  "env \<Rightarrow> 'd repo \<Rightarrow> 'd \<Rightarrow> request \<Rightarrow> py_error + (reading_progress \<times> 'd)" where
  "reading_pre_body env db d req =
     on_ok (get_user_id_from_request env req) (\<lambda>user_id.
     if \<not> py_truthy user_id then Inr (Responded (error_response ''Unauthorized'' 401), d)
     else
       (case body req of
          None \<Rightarrow> Inl JSONDecodeError
        | Some (JObj kvs) \<Rightarrow>
            (case dict_get kvs (ustr ''question'') (JStr []) of
               JStr q \<Rightarrow>
                 (let question = py_strip q;
                      cards_count = dict_get kvs (ustr ''cards_count'') (JInt 3);
                      reading_type = dict_get kvs (ustr ''reading_type'') (JStr (ustr ''classic''));
                      use_premium = dict_get kvs (ustr ''use_premium'') (JBool False);
                      cards_from_frontend = dict_get kvs (ustr ''cards'') (JArr [])
                  in
                  if question = [] then
                    Inr (Responded (error_response ''Question is required'' 400), d)
                  else if length question > 300 then
                    Inr (Responded (error_response ''Question too long (max 300 chars)'' 400), d)
                  else if check_forbidden_keywords env question then
                    Inr (Responded (json_response
                           [(ustr ''success'', JBool False),
                            (ustr ''error'', JStr (ustr ''forbidden_keywords'')),
                            (ustr ''message'', JStr forbidden_message)] 400),
                         increment_forbidden_attempts db d user_id)
                  else
                    (case get_user db d user_id of
                       None \<Rightarrow> Inr (Responded (error_response ''User not found'' 404), d)
                     | Some u \<Rightarrow>
                         (case balance_error use_premium u of
                            Some r \<Rightarrow> Inr (Responded r, d)
                          | None \<Rightarrow>
                              on_ok (choose_cards env cards_from_frontend cards_count) (\<lambda>cards.
                                Inr (Awaiting
                                       \<lparr>g_question = question, g_cards = cards,
                                        g_is_premium = use_premium,
                                        g_full_history = history_context (get_history db d user_id 3 0),
                                        g_user_id = user_id, g_username = username u,
                                        g_reading_type = reading_type\<rparr>, d)))))
             | _ \<Rightarrow> Inl AttributeError)
        | Some _ \<Rightarrow> Inl AttributeError))"

definition reading_pre ::
  "env \<Rightarrow> 'd repo \<Rightarrow> 'd \<Rightarrow> request \<Rightarrow> reading_progress \<times> 'd" where
  "reading_pre env db d req =
     (case reading_pre_body env db d req of
        Inl e \<Rightarrow> (Responded (internal_error e), d)
      | Inr r \<Rightarrow> r)"

text \<open>\<open>k in v\<close>, \<open>v[k]\<close> and \<open>v[0]\<close> for a \<open>str\<close> key \<open>k\<close>, with the exceptions of Python.\<close>

fun starts_with :: "pystr \<Rightarrow> pystr \<Rightarrow> bool" where
  "starts_with [] s = True"
| "starts_with (p # ps) [] = False"
| "starts_with (p # ps) (c # r) = (p = c \<and> starts_with ps r)"

fun has_substring :: "pystr \<Rightarrow> pystr \<Rightarrow> bool" where
  "has_substring p [] = (p = [])"
| "has_substring p (c # r) = (starts_with p (c # r) \<or> has_substring p r)"

fun py_contains :: "json \<Rightarrow> pystr \<Rightarrow> py_error + bool" where
  "py_contains (JObj kvs) k = Inr (map_of kvs k \<noteq> None)"
| "py_contains (JStr s) k = Inr (has_substring k s)"
| "py_contains (JArr xs) k = Inr (JStr k \<in> set xs)"
| "py_contains _ k = Inl TypeError"

fun py_item :: "json \<Rightarrow> pystr \<Rightarrow> py_error + json" where
  "py_item (JObj kvs) k = (case map_of kvs k of None \<Rightarrow> Inl KeyError | Some v \<Rightarrow> Inr v)"
| "py_item _ k = Inl TypeError"

fun py_first :: "json \<Rightarrow> py_error + json" where
  "py_first (JArr []) = Inl IndexError"
| "py_first (JArr (x # _)) = Inr x"
| "py_first (JStr []) = Inl IndexError"
| "py_first (JStr (c # _)) = Inr (JStr [c])"
| "py_first (JObj kvs) = Inl KeyError"
| "py_first _ = Inl TypeError"

text \<open>The text of the answer: \<open>response['choices'][0]['message']['content']\<close> or \<open>""\<close>.\<close>

definition extract_interpretation :: "json \<Rightarrow> py_error + json" where
  "extract_interpretation response =
     on_ok (py_contains response (ustr ''choices'')) (\<lambda>has_choices.
       if has_choices then
         on_ok (py_item response (ustr ''choices'')) (\<lambda>choices.
         on_ok (py_first choices) (\<lambda>choice.
         on_ok (py_item choice (ustr ''message'')) (\<lambda>message.
           py_item message (ustr ''content''))))
       else Inr (JStr []))"

text \<open>
  The handler from the return of \<open>get_tarot_response\<close> on; \<open>outcome\<close> is what the call
  did, an exception or the value returned.
\<close>

definition reading_post_body ::
  "env \<Rightarrow> 'd repo \<Rightarrow> 'd \<Rightarrow> gen_call \<Rightarrow> py_error + json \<Rightarrow> py_error + (response \<times> 'd)" where
  "reading_post_body env db d call outcome =
     on_ok outcome (\<lambda>response.
     if \<not> py_truthy response then Inr (error_response ''AI service unavailable'' 503, d)
     else
       on_ok (extract_interpretation response) (\<lambda>interpretation.
         let d1 = (if py_truthy (g_is_premium call) then use_premium_request db d (g_user_id call)
                   else use_free_request db d (g_user_id call));
             d2 = add_history db d1
                    \<lparr>i_user_id = g_user_id call, i_question = g_question call,
                     i_cards = json_dumps env (g_cards call), i_response = interpretation,
                     i_reading_type = g_reading_type call, i_is_premium = g_is_premium call\<rparr>
         in Inr (json_response
                   [(ustr ''success'', JBool True),
                    (ustr ''reading'',
                     JObj [(ustr ''cards'', g_cards call),
                           (ustr ''interpretation'', interpretation),
                           (ustr ''reading_type'', g_reading_type call),
                           (ustr ''is_premium'', g_is_premium call)])] 200,
                 d2)))"

definition reading_post ::
  "env \<Rightarrow> 'd repo \<Rightarrow> 'd \<Rightarrow> gen_call \<Rightarrow> py_error + json \<Rightarrow> response \<times> 'd" where
  "reading_post env db d call outcome =
     (case reading_post_body env db d call outcome of
        Inl e \<Rightarrow> (internal_error e, d)
      | Inr r \<Rightarrow> r)"

text \<open>One request served alone: nothing else touches the repository during the call.\<close>

definition handle_reading ::
  "env \<Rightarrow> 'd repo \<Rightarrow> 'd \<Rightarrow> request \<Rightarrow> py_error + json \<Rightarrow> response \<times> 'd" where
  "handle_reading env db d req outcome =
     (case reading_pre env db d req of
        (Responded r, d') \<Rightarrow> (r, d')
      | (Awaiting call, d') \<Rightarrow> reading_post env db d' call outcome)"

subsection \<open>Requests in flight together\<close>

text \<open>
  A request is suspended while it awaits the generator, and other requests run meanwhile.
  A task is a request not yet started, one waiting for the generator, or one answered. A
  schedule names, step by step, the task that runs next and what the generator returns
  to it if it was waiting.
\<close>

datatype task = Fresh request | Waiting gen_call | Finished response

fun step_task ::
  "env \<Rightarrow> 'd repo \<Rightarrow> py_error + json \<Rightarrow> task \<Rightarrow> 'd \<Rightarrow> task \<times> 'd" where
  "step_task env db outcome (Fresh req) d =
     (case reading_pre env db d req of
        (Responded r, d') \<Rightarrow> (Finished r, d')
      | (Awaiting call, d') \<Rightarrow> (Waiting call, d'))"
| "step_task env db outcome (Waiting call) d =
     (case reading_post env db d call outcome of (r, d') \<Rightarrow> (Finished r, d'))"
| "step_task env db outcome (Finished r) d = (Finished r, d)"

fun run_schedule ::
  "env \<Rightarrow> 'd repo \<Rightarrow> (nat \<times> (py_error + json)) list \<Rightarrow> task list \<times> 'd \<Rightarrow> task list \<times> 'd" where
  "run_schedule env db [] st = st"
| "run_schedule env db ((i, outcome) # rest) (ts, d) =
     (if i < length ts then
        (case step_task env db outcome (ts ! i) d of
           (t', d') \<Rightarrow> run_schedule env db rest (ts[i := t'], d'))
      else run_schedule env db rest (ts, d))"

section \<open>handle_history\<close>

text \<open>\<open>int(request.query.get(name, default))\<close>\<close>

definition query_int :: "request \<Rightarrow> string \<Rightarrow> int \<Rightarrow> py_error + int" where
  "query_int req name dflt =
     (case map_of (query req) (ustr name) of
        None \<Rightarrow> Inr dflt
      | Some s \<Rightarrow> (case py_int s of None \<Rightarrow> Inl ValueError | Some n \<Rightarrow> Inr n))"

definition total_pages :: "int \<Rightarrow> int \<Rightarrow> py_error + int" where
  "total_pages total_n limit =
     (if total_n > 0 then
        (if limit = 0 then Inl ZeroDivisionError else Inr ((total_n + limit - 1) div limit))
      else Inr 1)"

definition handle_history_body :: "env \<Rightarrow> 'd repo \<Rightarrow> 'd \<Rightarrow> request \<Rightarrow> py_error + response" where
  "handle_history_body env db d req =
     on_ok (get_user_id_from_request env req) (\<lambda>user_id.
     if \<not> py_truthy user_id then Inr (error_response ''Unauthorized'' 401)
     else
       on_ok (query_int req ''page'' 0) (\<lambda>page.
       on_ok (query_int req ''limit'' 10) (\<lambda>limit.
         let offset = page * limit;
             hist = get_history db d user_id limit offset;
             total_n = get_total_history_count db d user_id;
             pays = get_user_payments db d user_id limit offset
         in on_ok (total_pages total_n limit) (\<lambda>pages.
              Inr (json_response
                     [(ustr ''success'', JBool True),
                      (ustr ''history'', JArr (map interaction_json hist)),
                      (ustr ''payments'', JArr pays),
                      (ustr ''pagination'',
                       JObj [(ustr ''page'', JInt page), (ustr ''limit'', JInt limit),
                             (ustr ''total'', JInt total_n), (ustr ''total_pages'', JInt pages)])]
                     200)))))"

definition handle_history :: "env \<Rightarrow> 'd repo \<Rightarrow> 'd \<Rightarrow> request \<Rightarrow> response" where
  "handle_history env db d req =
     (case handle_history_body env db d req of Inl e \<Rightarrow> internal_error e | Inr r \<Rightarrow> r)"

section \<open>Notions of the specification\<close>

text \<open>
  The fields of a blob as section 4.1 reads them: the key/value pairs of the parsed query
  string, a repeated key with its first value.
\<close>

definition blob_fields :: "pystr \<Rightarrow> (pystr \<times> pystr) list" where
  "blob_fields blob =
     concat (map (\<lambda>(k, vs). case vs of [] \<Rightarrow> [] | v # _ \<Rightarrow> [(k, v)]) (parse_qs blob))"

definition field_of :: "pystr \<Rightarrow> string \<Rightarrow> pystr option" where
  "field_of blob name = map_of (blob_fields blob) (ustr name)"

text \<open>
  The canonical check-string in the words of the specification: every pair but \<open>hash\<close>
  as \<open>key=value\<close>, the lines sorted and joined with a line feed.
\<close>

definition canonical_check_string :: "pystr \<Rightarrow> pystr" where
  "canonical_check_string blob =
     join [10] (sort (map (\<lambda>(k, v). k @ ustr ''='' @ v)
                        (filter (\<lambda>(k, v). k \<noteq> ustr ''hash'') (blob_fields blob))))"

text \<open>The hash that the platform attaches to a check-string under a token.\<close>

definition signature_of :: "pystr \<Rightarrow> pystr \<Rightarrow> pystr" where
  "signature_of token dcs = (case calculated_hash token dcs of Inl e \<Rightarrow> [] | Inr h \<Rightarrow> h)"

text \<open>A blob as the platform signs it: the fields, then the hash of their check-string.\<close>

definition signed_blob :: "pystr \<Rightarrow> pystr \<Rightarrow> pystr" where
  "signed_blob token flds =
     flds @ ustr ''&hash='' @ signature_of token (canonical_check_string flds)"

definition is_ascii :: "pystr \<Rightarrow> bool" where
  "is_ascii s \<longleftrightarrow> (\<forall>c \<in> set s. c < 128)"

text \<open>ASCII text without the characters that a query string treats specially.\<close>

definition is_plain :: "pystr \<Rightarrow> bool" where
  "is_plain s \<longleftrightarrow> (\<forall>c \<in> set s. c < 128 \<and> c \<noteq> 37 \<and> c \<noteq> 38 \<and> c \<noteq> 43 \<and> c \<noteq> 61)"

definition is_hex_char :: "nat \<Rightarrow> bool" where
  "is_hex_char x \<longleftrightarrow> (48 \<le> x \<and> x \<le> 57) \<or> (97 \<le> x \<and> x \<le> 102)"

text \<open>A dictionary of \<open>parse_qs\<close> never holds an empty list or an empty value.\<close>

definition good_dict :: "(pystr \<times> pystr list) list \<Rightarrow> bool" where
  "good_dict d \<longleftrightarrow> (\<forall>(k, vs) \<in> set d. vs \<noteq> [] \<and> [] \<notin> set vs)"

text \<open>The two balances of a user.\<close>

definition balances :: "store \<Rightarrow> json \<Rightarrow> (int \<times> int) option" where
  "balances d uid = map_option (\<lambda>u. (requests_left u, premium_requests u)) (users d uid)"

definition violations :: "store \<Rightarrow> json \<Rightarrow> int option" where
  "violations d uid = map_option forbidden_attempts (users d uid)"

text \<open>A repository that reports other ban and terms flags, and is the same otherwise.\<close>

definition with_flags :: "(json \<Rightarrow> bool \<times> bool) \<Rightarrow> 'd repo \<Rightarrow> 'd repo" where
  "with_flags f db =
     db\<lparr>get_user :=
          (\<lambda>d uid. map_option (\<lambda>u. u\<lparr>is_banned := fst (f uid), agreed_rules := snd (f uid)\<rparr>)
                      (get_user db d uid))\<rparr>"

text \<open>The status of the answer of a task, once it has one.\<close>

fun task_status :: "task \<Rightarrow> nat option" where
  "task_status (Finished r) = Some (status r)"
| "task_status _ = None"

section \<open>A sample configuration\<close>

text \<open>
  The statements below hold for every configuration. Where one is evaluated, it is at this
  one: a token, a clock reading, and stand-ins for the collaborators that agree with them
  on the inputs used. The two JSON texts are \<open>{"first_name":"x"}\<close> and \<open>{"id":42}\<close>,
  written percent-encoded; any other text counts as ill-formed, as \<open>{\<close> is.
\<close>

definition sample_token :: pystr where
  "sample_token = ustr ''123456:TEST-TOKEN''"

definition sample_json_loads :: "pystr \<Rightarrow> json option" where
  "sample_json_loads s =
     (if s = unquote (ustr ''%7B%22first_name%22%3A%22x%22%7D'')
      then Some (JObj [(ustr ''first_name'', JStr (ustr ''x''))])
      else if s = unquote (ustr ''%7B%22id%22%3A42%7D'')
      then Some (JObj [(ustr ''id'', JInt 42)])
      else None)"

fun sample_json_dumps :: "json \<Rightarrow> pystr" where
  "sample_json_dumps (JArr xs) =
     ustr ''['' @ join (ustr '', '') (map (\<lambda>x. case x of JStr s \<Rightarrow> [34] @ s @ [34] | _ \<Rightarrow> ustr ''null'') xs)
       @ ustr '']''"
| "sample_json_dumps _ = ustr ''null''"

definition sample_env :: env where
  "sample_env =
     \<lparr>BOT_TOKEN = sample_token, now = 86401, json_loads = sample_json_loads,
      forbidden_search = has_substring (ustr ''death''),
      generate_tarot_cards =
        (\<lambda>n. Inr (JArr [JStr (ustr ''The Fool''), JStr (ustr ''The Sun''), JStr (ustr ''The Moon'')])),
      json_dumps = sample_json_dumps\<rparr>"

text \<open>
  A repository with two users, each with one free unit: user 7, and user 8, who is banned
  and has not agreed to the terms. A request for a reading names the caller in the header
  \<open>X-User-Id\<close> and brings its question and one card.
\<close>

definition sample_user :: user_row where
  "sample_user =
     \<lparr>username = JStr (ustr ''ann''), requests_left = 1, premium_requests = 0,
      is_banned = False, agreed_rules = True, forbidden_attempts = 0\<rparr>"

definition sample_store :: store where
  "sample_store =
     \<lparr>users = [JInt 7 \<mapsto> sample_user,
               JInt 8 \<mapsto> sample_user\<lparr>is_banned := True, agreed_rules := False\<rparr>],
      history = [], payments = []\<rparr>"

definition reading_request :: "string \<Rightarrow> pystr \<Rightarrow> request" where
  "reading_request uid q =
     \<lparr>headers = [(ustr ''X-User-Id'', ustr uid)], query = [],
      body = Some (JObj [(ustr ''question'', JStr q),
                         (ustr ''cards'', JArr [JStr (ustr ''The Fool'')])])\<rparr>"

text \<open>The call that the handler makes for the question \<open>What now?\<close> of a user.\<close>

definition sample_call :: "int \<Rightarrow> gen_call" where
  "sample_call uid =
     \<lparr>g_question = ustr ''What now?'', g_cards = JArr [JStr (ustr ''The Fool'')],
      g_is_premium = JBool False, g_full_history = [], g_user_id = JInt uid,
      g_username = JStr (ustr ''ann''), g_reading_type = JStr (ustr ''classic'')\<rparr>"

text \<open>Two answers of the generator: a completion, and an object without \<open>choices\<close>.\<close>

definition good_answer :: json where
  "good_answer =
     JObj [(ustr ''choices'',
            JArr [JObj [(ustr ''message'', JObj [(ustr ''content'', JStr (ustr ''ok''))])]])]"

definition answer_without_choices :: json where
  "answer_without_choices = JObj [(ustr ''error'', JStr (ustr ''overloaded''))]"

text \<open>Two more results without a text: an empty list of choices, and an error report.\<close>

definition answer_with_empty_choices :: json where
  "answer_with_empty_choices = JObj [(ustr ''choices'', JArr [])]"

definition answer_rate_limited :: json where
  "answer_rate_limited = JObj [(ustr ''error'', JStr (ustr ''rate limit''))]"

text \<open>A question of 301 characters that names a forbidden topic.\<close>

definition long_question :: pystr where
  "long_question = ustr ''death'' @ replicate 296 97"

text \<open>
  A repository in which user 7 has three history records, and a request for page 1 of
  that history, two records a page.
\<close>

definition sample_entry :: "string \<Rightarrow> interaction" where
  "sample_entry q =
     \<lparr>i_user_id = JInt 7, i_question = ustr q, i_cards = ustr ''[]'', i_response = JStr [],
      i_reading_type = JStr (ustr ''classic''), i_is_premium = JBool False\<rparr>"

definition history_store :: store where
  "history_store =
     \<lparr>users = [JInt 7 \<mapsto> sample_user],
      history = [sample_entry ''first'', sample_entry ''second'', sample_entry ''third''],
      payments = []\<rparr>"

definition history_request :: request where
  "history_request =
     \<lparr>headers = [(ustr ''X-User-Id'', ustr ''7'')],
      query = [(ustr ''page'', ustr ''1''), (ustr ''limit'', ustr ''2'')],
      body = None\<rparr>"

section \<open>Facts about the library functions\<close>

lemma on_ok_Inl: "on_ok (Inl e) f = Inl e"
  by (simp add: on_ok_def)

lemma on_ok_Inr: "on_ok (Inr x) f = f x"
  by (simp add: on_ok_def)

lemma hi_nibble: "unat (drop_bit 4 (b :: 8 word)) < 16"
proof -
  have "unat b < 2 ^ LENGTH(8)" by (rule unsigned_less)
  then have "unat b div 16 < 16" by simp
  moreover have "unat (drop_bit 4 b) = drop_bit 4 (unat b)" by (rule unat_drop_bit_eq)
  moreover have "drop_bit 4 (unat b) = unat b div 16" by (simp add: drop_bit_eq_div)
  ultimately show ?thesis by presburger
qed

lemma lo_nibble: "unat ((b :: 8 word) AND 0x0f) < 16"
proof -
  have "b AND mask 4 < 2 ^ 4" by (rule and_mask_less_size) (simp add: word_size)
  then have "b AND 0x0f < 16" by (simp add: mask_eq_exp_minus_1)
  then show ?thesis by (simp add: word_less_nat_alt)
qed

lemma hex_nth: "i < 16 \<Longrightarrow> is_hex_char (of_char (''0123456789abcdef'' ! i))"
  unfolding is_hex_char_def
  by (simp add: less_Suc_eq numeral_eq_Suc, elim disjE; simp)

lemma hexlify_chars: "c \<in> set (hexlify bs) \<Longrightarrow> is_hex_char c"
proof (induction bs)
  case Nil
  then show ?case by (simp add: hexlify_def ustr_def)
next
  case (Cons b bs)
  have split: "hexlify (b # bs) = of_char (hex_digit (drop_bit 4 b)) # of_char (hex_digit (b AND 0x0f)) # hexlify bs"
    by (simp add: hexlify_def ustr_def)
  have "is_hex_char (of_char (hex_digit (drop_bit 4 b)))"
    unfolding hex_digit_def by (rule hex_nth [OF hi_nibble])
  moreover have "is_hex_char (of_char (hex_digit (b AND 0x0f)))"
    unfolding hex_digit_def by (rule hex_nth [OF lo_nibble])
  ultimately show ?case using Cons unfolding split by auto
qed

lemma hexlify_plain:
  "c \<in> set (hexlify bs) \<Longrightarrow> c < 128 \<and> c \<noteq> 37 \<and> c \<noteq> 38 \<and> c \<noteq> 43 \<and> c \<noteq> 61"
  using hexlify_chars [of c bs] by (auto simp: is_hex_char_def)

lemma length_hexlify: "length (hexlify bs) = 2 * length bs"
  by (induction bs) (simp_all add: hexlify_def ustr_def)

lemma length_compress: "length hs = 8 \<Longrightarrow> length (compress hs blk) = 8"
  by (simp add: compress_def Let_def split: prod.splits)

lemma length_foldl_compress: "length hs = 8 \<Longrightarrow> length (foldl compress hs blks) = 8"
  by (induction blks arbitrary: hs) (simp_all add: length_compress)

lemma length_concat_be32: "length (concat (map be32 ws)) = 4 * length ws"
  by (induction ws) (simp_all add: be32_def)

lemma length_sha256: "length (sha256 m) = 32"
  by (simp add: sha256_def Let_def length_concat_be32 length_foldl_compress H256_def)

lemma length_hmac: "length (hmac_sha256 k m) = 32"
  by (simp add: hmac_sha256_def Let_def length_sha256)

lemmas on_ok_simps = on_ok_Inl on_ok_Inr

lemma percent_decode_nonempty: "s \<noteq> [] \<Longrightarrow> percent_decode s \<noteq> []"
  by (induction s rule: percent_decode.induct) (auto split: option.splits)

lemma utf8_decode_nonempty: "utf8_decode (b # r) \<noteq> []"
  by (subst utf8_decode.simps) (simp split: list.split del: utf8_decode.simps)

lemma unquote_runs_nonempty: "run @ s \<noteq> [] \<Longrightarrow> unquote_runs run s \<noteq> []"
proof (induction s arbitrary: run)
  case Nil
  then have "percent_decode run \<noteq> []" by (simp add: percent_decode_nonempty)
  then obtain b r where "percent_decode run = b # r" by (cases "percent_decode run") auto
  then show ?case by (simp add: utf8_decode_nonempty del: utf8_decode.simps)
next
  case (Cons c s)
  then show ?case by simp
qed

lemma unquote_nonempty: "s \<noteq> [] \<Longrightarrow> unquote s \<noteq> []"
  by (simp add: unquote_def unquote_runs_nonempty)

lemma unquote_plus_nonempty: "s \<noteq> [] \<Longrightarrow> unquote (plus_to_space s) \<noteq> []"
  by (rule unquote_nonempty) (simp add: plus_to_space_def)

lemma parse_field_values: "(k, v) \<in> set (parse_field nv) \<Longrightarrow> v \<noteq> []"
  using unquote_plus_nonempty
  by (fastforce simp: parse_field_def split: if_splits prod.splits option.splits)

lemma parse_qsl_values: "(k, v) \<in> set (parse_qsl qs) \<Longrightarrow> v \<noteq> []"
  using parse_field_values by (fastforce simp: parse_qsl_def split: if_splits)

lemma good_dict_append: "good_dict d \<Longrightarrow> v \<noteq> [] \<Longrightarrow> good_dict (dict_append d k v)"
  by (induction d k v rule: dict_append.induct) (auto simp: good_dict_def)

lemma good_dict_foldl:
  "good_dict d \<Longrightarrow> \<forall>(k, v) \<in> set kvs. v \<noteq> [] \<Longrightarrow> good_dict (foldl (\<lambda>d (k, v). dict_append d k v) d kvs)"
  by (induction kvs arbitrary: d) (auto simp: good_dict_append)

lemma good_parse_qs: "good_dict (parse_qs qs)"
  unfolding parse_qs_def
  using parse_qsl_values by (intro good_dict_foldl) (auto simp: good_dict_def)

lemma good_dict_lookup: "good_dict d \<Longrightarrow> map_of d k = Some vs \<Longrightarrow> \<exists>v r. vs = v # r \<and> v \<noteq> []"
  by (cases vs) (auto simp: good_dict_def dest!: map_of_SomeD)

lemma map_of_fields:
  "good_dict d \<Longrightarrow>
   map_of (concat (map (\<lambda>(k, vs). case vs of [] \<Rightarrow> [] | v # _ \<Rightarrow> [(k, v)]) d)) k
     = map_option hd (map_of d k)"
  by (induction d) (auto simp: good_dict_def split: list.splits)

lemma first_value_good:
  "good_dict d \<Longrightarrow> first_value d k = Inr (map_option hd (map_of d k))"
  by (auto simp: first_value_def split: option.splits list.splits dest: good_dict_lookup)

lemma first_value_parse_qs: "first_value (parse_qs qs) (ustr name) = Inr (field_of qs name)"
  by (simp add: first_value_good good_parse_qs field_of_def blob_fields_def map_of_fields)

lemma field_of_nonempty: "field_of qs name = Some v \<Longrightarrow> v \<noteq> []"
proof -
  assume a: "field_of qs name = Some v"
  then have "map_option hd (map_of (parse_qs qs) (ustr name)) = Some v"
    by (simp add: field_of_def blob_fields_def map_of_fields good_parse_qs)
  then obtain vs where vs: "map_of (parse_qs qs) (ustr name) = Some vs" "hd vs = v" by auto
  from good_dict_lookup [OF good_parse_qs vs(1)] vs(2) show ?thesis by auto
qed

lemma data_pairs_good:
  "good_dict d \<Longrightarrow>
   data_pairs d = Inr (map (\<lambda>(k, v). k @ ustr ''='' @ v)
                    (filter (\<lambda>(k, v). k \<noteq> ustr ''hash'')
                       (concat (map (\<lambda>(k, vs). case vs of [] \<Rightarrow> [] | v # _ \<Rightarrow> [(k, v)]) d))))"
proof (induction d)
  case Nil
  then show ?case by simp
next
  case (Cons a d)
  obtain k vs where a: "a = (k, vs)" by (cases a)
  from Cons.prems obtain v r where vs: "vs = v # r" and g: "good_dict d"
    by (cases vs) (auto simp: good_dict_def a)
  show ?case using Cons.IH [OF g] by (simp add: a vs on_ok_simps)
qed

lemma data_check_string_parse_qs:
  "\<exists>pairs. data_pairs (parse_qs qs) = Inr pairs \<and> data_check_string pairs = canonical_check_string qs"
  by (simp add: data_pairs_good good_parse_qs data_check_string_def canonical_check_string_def
        blob_fields_def)

lemma parse_qs_empty: "field_of [] name = None"
  by (simp add: field_of_def blob_fields_def parse_qs_def parse_qsl_def)

lemma is_ascii_simps: "is_ascii [] = True" "is_ascii (c # s) = (c < 128 \<and> is_ascii s)"
  by (auto simp: is_ascii_def)

lemma utf8_encode_ascii: "is_ascii s \<Longrightarrow> utf8_encode s = Inr (map of_nat s)"
  by (induction s) (simp_all add: is_ascii_simps utf8_encode_cp_def on_ok_simps)

lemma calculated_hash_ascii_ok:
  "is_ascii t \<Longrightarrow> is_ascii d \<Longrightarrow> calculated_hash t d = Inr (signature_of t d)"
  by (simp add: signature_of_def calculated_hash_def utf8_encode_ascii on_ok_simps)

lemma calculated_hash_plain: "calculated_hash t d = Inr h \<Longrightarrow> is_plain h \<and> h \<noteq> []"
proof -
  assume "calculated_hash t d = Inr h"
  then obtain bs where h: "h = hexlify bs" and l: "length bs = 32"
    by (auto simp: calculated_hash_def on_ok_def length_hmac split: sum.splits)
  have "length h = 64" by (simp add: h length_hexlify l)
  then have "h \<noteq> []" by auto
  moreover have "is_plain h" unfolding is_plain_def h using hexlify_plain by blast
  ultimately show ?thesis by simp
qed

lemma signature_plain: "is_ascii t \<Longrightarrow> is_ascii d \<Longrightarrow> is_plain (signature_of t d)"
  using calculated_hash_plain [OF calculated_hash_ascii_ok] by blast

lemma signature_nonempty: "is_ascii t \<Longrightarrow> is_ascii d \<Longrightarrow> signature_of t d \<noteq> []"
  using calculated_hash_plain [OF calculated_hash_ascii_ok] by blast

lemma split_on_plain: "is_plain s \<Longrightarrow> split_on 38 s = [s]"
  by (induction s) (auto simp: is_plain_def)

lemma plus_to_space_simps:
  "plus_to_space [] = []"
  "plus_to_space (c # r) = (if c = 43 then 32 else c) # plus_to_space r"
  by (simp_all add: plus_to_space_def)

lemma plus_to_space_plain: "is_plain s \<Longrightarrow> plus_to_space s = s"
  by (induction s) (auto simp: is_plain_def plus_to_space_def)

lemma unquote_no_percent: "37 \<notin> set s \<Longrightarrow> unquote s = s"
  by (simp add: unquote_def)

lemma plain_no_percent: "is_plain s \<Longrightarrow> 37 \<notin> set s"
  by (auto simp: is_plain_def)

lemmas parse_eval =
  ustr_def field_of_def blob_fields_def parse_qs_def parse_qsl_def parse_field_def split_once_def
  plus_to_space_simps unquote_no_percent canonical_check_string_def

lemmas int_eval =
  py_int_def int_strip_def int_isspace_def py_isspace_def py_dec_def digit_value_def digit_zeros_def
  max_str_digits_def

lemma split_on_nonempty: "split_on c xs \<noteq> []"
  by (induction xs) (auto split: list.splits)

lemma split_on_append: "split_on c (xs @ c # ys) = split_on c xs @ split_on c ys"
  by (induction xs) (auto simp: split_on_nonempty split: list.splits)

lemma parse_qsl_alt: "parse_qsl qs = concat (map parse_field (split_on 38 qs))"
  by (simp add: parse_qsl_def parse_field_def)

lemma parse_qsl_append: "parse_qsl (f @ 38 # g) = parse_qsl f @ parse_qsl g"
  by (simp add: parse_qsl_alt split_on_append)

lemma parse_qsl_hash:
  assumes "is_plain H" "H \<noteq> []"
  shows "parse_qsl (ustr ''hash='' @ H) = [(ustr ''hash'', H)]"
  using assms
  by (simp add: parse_qsl_alt ustr_def parse_field_def split_once_def plus_to_space_simps
        unquote_no_percent split_on_plain plus_to_space_plain plain_no_percent is_plain_def)

lemma parse_qs_snoc:
  assumes "is_plain H" "H \<noteq> []"
  shows "parse_qs (f @ 38 # ustr ''hash='' @ H) = dict_append (parse_qs f) (ustr ''hash'') H"
  using assms by (simp add: parse_qs_def parse_qsl_append parse_qsl_hash)

lemma fields_dict_append_new:
  "map_of d k = None \<Longrightarrow>
   concat (map (\<lambda>(k, vs). case vs of [] \<Rightarrow> [] | v # _ \<Rightarrow> [(k, v)]) (dict_append d k v))
     = concat (map (\<lambda>(k, vs). case vs of [] \<Rightarrow> [] | v # _ \<Rightarrow> [(k, v)]) d) @ [(k, v)]"
  by (induction d k v rule: dict_append.induct) (auto split: if_splits)

lemma field_none_dict: "field_of f name = None \<Longrightarrow> map_of (parse_qs f) (ustr name) = None"
  by (simp add: field_of_def blob_fields_def map_of_fields good_parse_qs)

lemma blob_fields_signed:
  assumes "is_plain H" "H \<noteq> []" "field_of f ''hash'' = None"
  shows "blob_fields (f @ 38 # ustr ''hash='' @ H) = blob_fields f @ [(ustr ''hash'', H)]"
  using assms
  by (simp add: blob_fields_def parse_qs_snoc fields_dict_append_new field_none_dict)

lemma inj_ustr: "ustr a = ustr b \<longleftrightarrow> a = b"
proof -
  have "inj (of_char :: char \<Rightarrow> nat)" by (rule injI) simp
  then show ?thesis unfolding ustr_def by simp
qed

lemma signed_blob_alt:
  "signed_blob t f = f @ 38 # ustr ''hash='' @ signature_of t (canonical_check_string f)"
  by (simp add: signed_blob_def ustr_def)

lemma map_of_hash_none:
  "field_of f ''hash'' = None \<Longrightarrow>
   filter (\<lambda>(k, v). k \<noteq> ustr ''hash'') (blob_fields f) = blob_fields f"
  by (auto simp: field_of_def filter_id_conv map_of_eq_None_iff image_iff)

lemma signed_blob_fields:
  assumes "is_ascii t" "is_ascii (canonical_check_string f)" "field_of f ''hash'' = None"
  shows "field_of (signed_blob t f) ''hash'' = Some (signature_of t (canonical_check_string f))"
    and "name \<noteq> ''hash'' \<Longrightarrow> field_of (signed_blob t f) name = field_of f name"
    and "canonical_check_string (signed_blob t f) = canonical_check_string f"
    and "calculated_hash t (canonical_check_string f) = Inr (signature_of t (canonical_check_string f))"
proof -
  let ?H = "signature_of t (canonical_check_string f)"
  have H: "is_plain ?H" "?H \<noteq> []"
    using assms(1,2) by (simp_all add: signature_plain signature_nonempty)
  have bf: "blob_fields (signed_blob t f) = blob_fields f @ [(ustr ''hash'', ?H)]"
    unfolding signed_blob_alt by (rule blob_fields_signed [OF H assms(3)])
  show "field_of (signed_blob t f) ''hash'' = Some ?H"
    using assms(3) by (simp add: field_of_def bf map_add_def)
  show "field_of (signed_blob t f) name = field_of f name" if "name \<noteq> ''hash''"
    using that by (simp add: field_of_def bf map_add_def inj_ustr split: option.splits)
  show "canonical_check_string (signed_blob t f) = canonical_check_string f"
    using map_of_hash_none [OF assms(3)] by (simp add: canonical_check_string_def bf)
  show "calculated_hash t (canonical_check_string f) = Inr ?H"
    using assms(1,2) by (rule calculated_hash_ascii_ok)
qed

section \<open>The verifier\<close>

text \<open>
  On the dictionary of \<open>parse_qs\<close> no lookup and no step of the loop raises, and the
  check-string that the code builds is the canonical one of the specification.
\<close>

lemma str_truthy_field: "str_truthy (field_of blob name) \<longleftrightarrow> field_of blob name \<noteq> None"
  by (auto simp: str_truthy_def dest: field_of_nonempty split: option.splits)

lemma verify_body_eq:
  "verify_body env blob =
     (if blob = [] then Inr ((False, None), [])
      else
        (case field_of blob ''hash'' of
           None \<Rightarrow> Inr ((False, None), [Warning_no_hash])
         | Some h \<Rightarrow>
             on_ok (calculated_hash (BOT_TOKEN env) (canonical_check_string blob)) (\<lambda>calc.
             on_ok (compare_digest calc h) (\<lambda>same.
             if \<not> same then
               Inr ((False, None), [Warning_hash_mismatch (take 16 calc) (take 16 h)])
             else
               on_ok (auth_date_expired env (field_of blob ''auth_date'')) (\<lambda>expired.
               case expired of
                 Some age \<Rightarrow> Inr ((False, None), [Warning_auth_date_too_old age])
               | None \<Rightarrow>
                 on_ok (parse_user env (field_of blob ''user'')) (\<lambda>u.
                   Inr ((True, Some \<lparr>user = u, auth_date = field_of blob ''auth_date'',
                                     query_id = field_of blob ''query_id'',
                                     chat_type = field_of blob ''chat_type'',
                                     chat_instance = field_of blob ''chat_instance''\<rparr>),
                        [])))))))"
proof (cases "blob = []")
  case True
  then show ?thesis by (simp add: verify_body_def)
next
  case False
  obtain pairs where p: "data_pairs (parse_qs blob) = Inr pairs"
      "data_check_string pairs = canonical_check_string blob"
    using data_check_string_parse_qs by blast
  show ?thesis
    using False p
    by (simp add: verify_body_def Let_def first_value_parse_qs on_ok_simps str_truthy_field
          str_or_empty_def cong: if_cong split: option.splits)
qed

lemma calculated_hash_ascii: "calculated_hash t d = Inr c \<Longrightarrow> x \<in> set c \<Longrightarrow> x < 128"
  by (auto simp: calculated_hash_def on_ok_def split: sum.splits dest: hexlify_plain)

lemma compare_digest_calc:
  "calculated_hash t d = Inr c \<Longrightarrow> compare_digest c h = Inr True \<longleftrightarrow> c = h"
  using calculated_hash_ascii [of t d c]
  by (auto simp: compare_digest_def)

lemma compare_digest_cases:
  "compare_digest c h = Inr True \<or> compare_digest c h = Inr False \<or> compare_digest c h = Inl TypeError"
  by (auto simp: compare_digest_def)

lemma auth_date_expired_field:
  "auth_date_expired env (field_of blob ''auth_date'') =
     (case field_of blob ''auth_date'' of
        None \<Rightarrow> Inr None
      | Some s \<Rightarrow>
          (case py_int s of
             None \<Rightarrow> Inl ValueError
           | Some a \<Rightarrow> Inr (if now env - a > 86400 then Some (now env - a) else None)))"
  by (simp add: auth_date_expired_def str_truthy_field str_or_empty_def split: option.splits)

lemma parse_user_field:
  "parse_user env (field_of blob ''user'') =
     (case field_of blob ''user'' of
        None \<Rightarrow> Inr JNull
      | Some s \<Rightarrow> (case json_loads env s of None \<Rightarrow> Inl JSONDecodeError | Some j \<Rightarrow> Inr j))"
  by (simp add: parse_user_def str_truthy_field str_or_empty_def split: option.splits)

text \<open>
  The verifier accepts exactly when the hash matches, the date, if any, is an integer not
  older than a day, and the user, if any, is well-formed JSON.
\<close>

lemma field_nonempty_blob: "field_of blob name = Some v \<Longrightarrow> blob \<noteq> []"
  using parse_qs_empty [of name] by auto

lemma verify_value:
  "verify_telegram_init_data env blob =
     (case verify_body env blob of Inl e \<Rightarrow> (False, None) | Inr r \<Rightarrow> fst r)"
  by (simp add: verify_telegram_init_data_def verify_logged_def split: sum.splits)

lemma verify_fst_iff:
  assumes "field_of blob ''hash'' = Some h"
  shows "fst (verify_telegram_init_data env blob) \<longleftrightarrow>
           calculated_hash (BOT_TOKEN env) (canonical_check_string blob) = Inr h
           \<and> (\<forall>s. field_of blob ''auth_date'' = Some s \<longrightarrow>
                 (\<exists>a. py_int s = Some a \<and> now env - a \<le> 86400))
           \<and> (\<forall>s. field_of blob ''user'' = Some s \<longrightarrow> json_loads env s \<noteq> None)"
proof (cases "calculated_hash (BOT_TOKEN env) (canonical_check_string blob)")
  note ne = field_nonempty_blob [OF assms]
  case (Inl e)
  then show ?thesis
    by (simp add: verify_value verify_body_eq assms ne on_ok_simps)
next
  note ne = field_nonempty_blob [OF assms]
  case (Inr c)
  show ?thesis
  proof (cases "c = h")
    case True
    then have "compare_digest c h = Inr True" using compare_digest_calc [OF Inr] by simp
    then show ?thesis
      using Inr True ne
      unfolding verify_value verify_body_eq auth_date_expired_field
        parse_user_field
      by (auto simp: assms on_ok_simps split: option.splits)
  next
    case False
    then have "compare_digest c h \<noteq> Inr True" using compare_digest_calc [OF Inr] by simp
    then have "compare_digest c h = Inr False \<or> compare_digest c h = Inl TypeError"
      using compare_digest_cases by blast
    then show ?thesis
      using Inr False
      by (auto simp: verify_value verify_body_eq assms ne on_ok_simps)
  qed
qed

lemma verify_invalid_shape:
  "verify_telegram_init_data env blob = (False, None)
   \<or> (\<exists>data. verify_telegram_init_data env blob = (True, Some data))"
  unfolding verify_value verify_body_eq auth_date_expired_field parse_user_field
  by (auto simp: on_ok_def split: option.splits sum.splits)

lemma verify_not_fst:
  "\<not> fst (verify_telegram_init_data env blob) \<longleftrightarrow>
   verify_telegram_init_data env blob = (False, None)"
  using verify_invalid_shape [of env blob] by auto

text \<open>A blob that the platform signed under the token of the bot.\<close>

lemma signed_valid:
  assumes "is_ascii (BOT_TOKEN env)" "is_ascii (canonical_check_string f)"
    "field_of f ''hash'' = None"
  shows "fst (verify_telegram_init_data env (signed_blob (BOT_TOKEN env) f)) \<longleftrightarrow>
           (\<forall>s. field_of f ''auth_date'' = Some s \<longrightarrow>
                 (\<exists>a. py_int s = Some a \<and> now env - a \<le> 86400))
           \<and> (\<forall>s. field_of f ''user'' = Some s \<longrightarrow> json_loads env s \<noteq> None)"
  using verify_fst_iff [OF signed_blob_fields(1) [OF assms], of env]
  by (simp add: signed_blob_fields [OF assms])

subsection \<open>The sample blobs\<close>

lemma sample_env_simps:
  "BOT_TOKEN sample_env = sample_token" "now sample_env = 86401"
  "json_loads sample_env = sample_json_loads"
  by (simp_all add: sample_env_def)

lemma sample_token_ascii: "is_ascii sample_token"
  by (simp add: sample_token_def ustr_def is_ascii_simps)

lemma sample_token_ascii': "is_ascii (BOT_TOKEN sample_env)"
  by (simp add: sample_env_simps sample_token_ascii)

lemma fields_date0:
  "field_of (ustr ''auth_date=0'') ''hash'' = None"
  "field_of (ustr ''auth_date=0'') ''auth_date'' = Some (ustr ''0'')"
  "field_of (ustr ''auth_date=0'') ''user'' = None"
  "canonical_check_string (ustr ''auth_date=0'') = ustr ''auth_date=0''"
  by (simp_all add: parse_eval)

lemma fields_date1:
  "field_of (ustr ''auth_date=1'') ''hash'' = None"
  "field_of (ustr ''auth_date=1'') ''auth_date'' = Some (ustr ''1'')"
  "field_of (ustr ''auth_date=1'') ''user'' = None"
  "canonical_check_string (ustr ''auth_date=1'') = ustr ''auth_date=1''"
  by (simp_all add: parse_eval)

lemma fields_twice2:
  "field_of (ustr ''a=1&a=2'') ''hash'' = None"
  "field_of (ustr ''a=1&a=2'') ''auth_date'' = None"
  "field_of (ustr ''a=1&a=2'') ''user'' = None"
  "canonical_check_string (ustr ''a=1&a=2'') = ustr ''a=1''"
  by (simp_all add: parse_eval)

lemma fields_twice3:
  "field_of (ustr ''a=1&a=3'') ''hash'' = None"
  "field_of (ustr ''a=1&a=3'') ''auth_date'' = None"
  "field_of (ustr ''a=1&a=3'') ''user'' = None"
  "canonical_check_string (ustr ''a=1&a=3'') = ustr ''a=1''"
  by (simp_all add: parse_eval)

lemma fields_bad_user:
  "field_of (ustr ''auth_date=86401&user=%7B'') ''hash'' = None"
  "field_of (ustr ''auth_date=86401&user=%7B'') ''auth_date'' = Some (ustr ''86401'')"
  "field_of (ustr ''auth_date=86401&user=%7B'') ''user'' = Some (ustr ''{'')"
  "canonical_check_string (ustr ''auth_date=86401&user=%7B'')
     = ustr ''auth_date=86401'' @ 10 # ustr ''user={''"
  by (simp_all add: parse_eval unquote_def hex_val_def)

lemma py_int_samples:
  "py_int (ustr ''0'') = Some 0" "py_int (ustr ''1'') = Some 1"
  "py_int (ustr ''86401'') = Some 86401" "py_int (ustr ''abc'') = None"
  by (simp_all add: int_eval ustr_def)

lemma ascii_samples:
  "is_ascii (ustr ''auth_date=0'')" "is_ascii (ustr ''auth_date=1'')" "is_ascii (ustr ''a=1'')"
  "is_ascii (ustr ''auth_date=86401'' @ 10 # ustr ''user={'')"
  by (simp_all add: ustr_def is_ascii_simps)

lemma sample_json_loads_brace: "sample_json_loads (ustr ''{'') = None"
  by (simp add: sample_json_loads_def unquote_def hex_val_def ustr_def)

lemmas signed_date0 =
  signed_blob_fields [OF sample_token_ascii, of "ustr ''auth_date=0''", unfolded fields_date0,
    OF ascii_samples(1) refl]

lemmas signed_date1 =
  signed_blob_fields [OF sample_token_ascii, of "ustr ''auth_date=1''", unfolded fields_date1,
    OF ascii_samples(2) refl]

lemmas signed_bad_user =
  signed_blob_fields [OF sample_token_ascii, of "ustr ''auth_date=86401&user=%7B''",
    unfolded fields_bad_user, OF ascii_samples(4) refl]

subsection \<open>Signature check\<close>

text \<open>
  Claim C1, as amended. For every blob with a hash field, verification succeeds if and
  only if the hash equals the hexadecimal HMAC-SHA256, keyed with
  HMAC-SHA256(key = "WebAppData", message = token), of the canonical check-string (every
  parsed pair but the hash as key=value, a repeated key with its first value, the lines
  sorted and joined with a line feed), and moreover the auth_date field, if present, is an
  integer at most 86400 seconds before now, and the user field, if present, is well-formed
  JSON. So a changed blob is rejected whenever its hash field no longer equals the HMAC of
  its own check-string.
\<close>

theorem verify_succeeds_iff:
  assumes "field_of blob ''hash'' = Some h"
  shows "fst (verify_telegram_init_data env blob) \<longleftrightarrow>
           calculated_hash (BOT_TOKEN env) (canonical_check_string blob) = Inr h
           \<and> (\<forall>s. field_of blob ''auth_date'' = Some s \<longrightarrow>
                 (\<exists>a. py_int s = Some a \<and> now env - a \<le> 86400))
           \<and> (\<forall>s. field_of blob ''user'' = Some s \<longrightarrow> json_loads env s \<noteq> None)"
  using assms by (rule verify_fst_iff)

text \<open>
  The theorem at the blob \<open>auth_date=1\<close> signed under the sample token, with the clock
  at 86401: the blob is accepted.
\<close>

theorem verify_succeeds_iff_witness:
  "field_of (signed_blob sample_token (ustr ''auth_date=1'')) ''hash''
     = Some (signature_of sample_token (ustr ''auth_date=1''))
   \<and> fst (verify_telegram_init_data sample_env (signed_blob sample_token (ustr ''auth_date=1'')))"
proof -
  have h: "field_of (signed_blob sample_token (ustr ''auth_date=1'')) ''hash''
     = Some (signature_of sample_token (ustr ''auth_date=1''))"
    by (rule signed_date1(1))
  show ?thesis
    using verify_succeeds_iff [OF h, of sample_env]
    by (simp add: signed_date1 fields_date1 py_int_samples sample_env_simps)
qed

text \<open>
  Claim C1 as stated fails twice. The blob \<open>auth_date=0\<close> carries the right hash and is
  rejected all the same, being 86401 seconds old. And the two blobs \<open>a=1&a=2&hash=S\<close> and
  \<open>a=1&a=3&hash=S\<close>, which differ in one character of a field, are both accepted: only
  the first value of a repeated key enters the check-string.
\<close>

theorem verify_succeeds_iff_counterexample:
  "field_of (signed_blob sample_token (ustr ''auth_date=0'')) ''hash''
     = Some (signature_of sample_token (ustr ''auth_date=0''))
   \<and> calculated_hash (BOT_TOKEN sample_env)
        (canonical_check_string (signed_blob sample_token (ustr ''auth_date=0'')))
     = Inr (signature_of sample_token (ustr ''auth_date=0''))
   \<and> verify_telegram_init_data sample_env (signed_blob sample_token (ustr ''auth_date=0''))
     = (False, None)
   \<and> fst (verify_telegram_init_data sample_env
        (ustr ''a=1&a=2&hash='' @ signature_of sample_token (ustr ''a=1'')))
   \<and> fst (verify_telegram_init_data sample_env
        (ustr ''a=1&a=3&hash='' @ signature_of sample_token (ustr ''a=1'')))"
proof -
  note t = sample_token_ascii'
  have "\<not> fst (verify_telegram_init_data sample_env
            (signed_blob (BOT_TOKEN sample_env) (ustr ''auth_date=0'')))"
    using signed_valid [OF t, of "ustr ''auth_date=0''"]
    by (simp add: fields_date0 py_int_samples ascii_samples sample_env_simps)
  then have 3: "verify_telegram_init_data sample_env (signed_blob sample_token (ustr ''auth_date=0''))
     = (False, None)"
    by (simp add: verify_not_fst sample_env_simps)
  have e2: "ustr ''a=1&a=2&hash='' @ signature_of sample_token (ustr ''a=1'')
              = signed_blob (BOT_TOKEN sample_env) (ustr ''a=1&a=2'')"
    by (simp add: signed_blob_def fields_twice2 sample_env_simps) (simp add: ustr_def)
  have e3: "ustr ''a=1&a=3&hash='' @ signature_of sample_token (ustr ''a=1'')
              = signed_blob (BOT_TOKEN sample_env) (ustr ''a=1&a=3'')"
    by (simp add: signed_blob_def fields_twice3 sample_env_simps) (simp add: ustr_def)
  have 4: "fst (verify_telegram_init_data sample_env
        (ustr ''a=1&a=2&hash='' @ signature_of sample_token (ustr ''a=1'')))"
    unfolding e2 using signed_valid [OF t, of "ustr ''a=1&a=2''"]
    by (simp add: fields_twice2 ascii_samples)
  have 5: "fst (verify_telegram_init_data sample_env
        (ustr ''a=1&a=3&hash='' @ signature_of sample_token (ustr ''a=1'')))"
    unfolding e3 using signed_valid [OF t, of "ustr ''a=1&a=3''"]
    by (simp add: fields_twice3 ascii_samples)
  show ?thesis
    using signed_date0(1) signed_date0(4) 3 4 5 by (simp add: signed_date0(3) sample_env_simps)
qed

subsection \<open>Expiry\<close>

text \<open>
  Claim C5, as amended. For every blob whose signature verifies, whose auth_date field is
  an integer, and whose user field, if present, is well-formed JSON, the verifier rejects
  exactly when now - auth_date > 86400: a token with auth_date = now - 86401 is rejected
  and one with auth_date = now - 86400 is accepted.
\<close>

theorem auth_date_window:
  assumes "field_of blob ''hash'' = Some h"
    and "calculated_hash (BOT_TOKEN env) (canonical_check_string blob) = Inr h"
    and "field_of blob ''auth_date'' = Some s" and "py_int s = Some a"
    and "\<forall>u. field_of blob ''user'' = Some u \<longrightarrow> json_loads env u \<noteq> None"
  shows "verify_telegram_init_data env blob = (False, None) \<longleftrightarrow> now env - a > 86400"
  using verify_fst_iff [OF assms(1), of env] assms(2-5)
  by (auto simp: verify_not_fst [symmetric])

text \<open>
  The theorem at the clock reading 86401: the signed blob with \<open>auth_date=0\<close> is rejected,
  the one with \<open>auth_date=1\<close> is accepted.
\<close>

theorem auth_date_window_witness:
  "verify_telegram_init_data sample_env (signed_blob sample_token (ustr ''auth_date=0''))
     = (False, None)
   \<and> now sample_env - 0 = 86401
   \<and> verify_telegram_init_data sample_env (signed_blob sample_token (ustr ''auth_date=1''))
     \<noteq> (False, None)
   \<and> now sample_env - 1 = 86400"
proof -
  have a0: "verify_telegram_init_data sample_env (signed_blob sample_token (ustr ''auth_date=0''))
              = (False, None)
            \<longleftrightarrow> now sample_env - 0 > 86400"
    by (rule auth_date_window [OF signed_date0(1), where s = "ustr ''0''"])
       (simp_all add: signed_date0 fields_date0 py_int_samples sample_env_simps)
  have a1: "verify_telegram_init_data sample_env (signed_blob sample_token (ustr ''auth_date=1''))
              = (False, None)
            \<longleftrightarrow> now sample_env - 1 > 86400"
    by (rule auth_date_window [OF signed_date1(1), where s = "ustr ''1''"])
       (simp_all add: signed_date1 fields_date1 py_int_samples sample_env_simps)
  show ?thesis using a0 a1 by (simp add: sample_env_simps)
qed

text \<open>
  Claim C5 as stated fails at a blob whose user field is the ill-formed JSON text \<open>{\<close>:
  the signature verifies and the token is fresh (auth_date = now), but the blob is
  rejected.
\<close>

theorem auth_date_window_counterexample:
  "field_of (signed_blob sample_token (ustr ''auth_date=86401&user=%7B'')) ''hash''
     = Some (signature_of sample_token (ustr ''auth_date=86401'' @ 10 # ustr ''user={''))
   \<and> calculated_hash (BOT_TOKEN sample_env)
        (canonical_check_string (signed_blob sample_token (ustr ''auth_date=86401&user=%7B'')))
     = Inr (signature_of sample_token (ustr ''auth_date=86401'' @ 10 # ustr ''user={''))
   \<and> field_of (signed_blob sample_token (ustr ''auth_date=86401&user=%7B'')) ''auth_date''
     = Some (ustr ''86401'')
   \<and> py_int (ustr ''86401'') = Some 86401
   \<and> \<not> now sample_env - 86401 > 86400
   \<and> verify_telegram_init_data sample_env
        (signed_blob sample_token (ustr ''auth_date=86401&user=%7B'')) = (False, None)"
proof -
  have "\<not> fst (verify_telegram_init_data sample_env
          (signed_blob (BOT_TOKEN sample_env) (ustr ''auth_date=86401&user=%7B'')))"
    using signed_valid [OF sample_token_ascii', of "ustr ''auth_date=86401&user=%7B''"]
    by (simp add: fields_bad_user py_int_samples sample_json_loads_brace ascii_samples
          sample_env_simps)
  then have "verify_telegram_init_data sample_env
        (signed_blob sample_token (ustr ''auth_date=86401&user=%7B'')) = (False, None)"
    by (simp add: verify_not_fst sample_env_simps)
  then show ?thesis
    using signed_bad_user(1) signed_bad_user(4) signed_bad_user(2) [of "''auth_date''"]
    by (simp add: signed_bad_user(3) py_int_samples fields_bad_user sample_env_simps)
qed

subsection \<open>Exceptions and effects\<close>

lemma first_value_total: "\<exists>v. first_value (parse_qs blob) k = Inr v"
  by (simp add: first_value_good good_parse_qs)

lemma fields_date_abc:
  "field_of (ustr ''auth_date=abc'') ''hash'' = None"
  "field_of (ustr ''auth_date=abc'') ''auth_date'' = Some (ustr ''abc'')"
  "field_of (ustr ''auth_date=abc'') ''user'' = None"
  "canonical_check_string (ustr ''auth_date=abc'') = ustr ''auth_date=abc''"
  by (simp_all add: parse_eval)

lemma fields_user_brace:
  "field_of (ustr ''user=%7B'') ''hash'' = None"
  "field_of (ustr ''user=%7B'') ''auth_date'' = None"
  "field_of (ustr ''user=%7B'') ''user'' = Some (ustr ''{'')"
  "canonical_check_string (ustr ''user=%7B'') = ustr ''user={''"
  by (simp_all add: parse_eval unquote_def hex_val_def)

lemma ascii_samples2:
  "is_ascii (ustr ''auth_date=abc'')" "is_ascii (ustr ''user={'')"
  by (simp_all add: ustr_def is_ascii_simps)

lemmas signed_date_abc =
  signed_blob_fields [OF sample_token_ascii, of "ustr ''auth_date=abc''", unfolded fields_date_abc,
    OF ascii_samples2(1) refl]

lemmas signed_user_brace =
  signed_blob_fields [OF sample_token_ascii, of "ustr ''user=%7B''", unfolded fields_user_brace,
    OF ascii_samples2(2) refl]

lemma compare_digest_same:
  "calculated_hash t d = Inr c \<Longrightarrow> compare_digest c c = Inr True"
  using compare_digest_calc [of t d c c] by simp

lemma utf8_encode_error: "utf8_encode s = Inl e \<Longrightarrow> e = UnicodeEncodeError"
  by (induction s)
     (auto simp: utf8_encode_cp_def on_ok_def split: sum.splits if_splits)

lemma calculated_hash_error: "calculated_hash t d = Inl e \<Longrightarrow> e = UnicodeEncodeError"
  by (auto simp: calculated_hash_def on_ok_def split: sum.splits dest: utf8_encode_error)

lemma compare_digest_error: "compare_digest a b = Inl e \<Longrightarrow> e = TypeError"
  by (auto simp: compare_digest_def split: if_splits)

lemma verify_body_errors:
  assumes "verify_body env blob = Inl e"
  shows "e = UnicodeEncodeError \<or> e = TypeError \<or> e = ValueError \<or> e = JSONDecodeError"
  using assms
  unfolding verify_body_eq auth_date_expired_field parse_user_field
  by (auto simp: on_ok_def split: sum.splits option.splits if_splits
        dest: calculated_hash_error compare_digest_error)

lemma verify_body_records:
  assumes "verify_body env blob = Inr (v, recs)"
  shows "((\<exists>data. v = (True, Some data)) \<and> recs = [])
         \<or> (v = (False, None) \<and> length recs \<le> 1 \<and> (recs = [] \<longleftrightarrow> blob = []))"
  using assms
  unfolding verify_body_eq auth_date_expired_field parse_user_field
  by (auto simp: on_ok_def split: sum.splits option.splits if_splits)

lemma verify_logged_shape:
  "(\<exists>data. verify_logged env blob = ((True, Some data), []))
   \<or> (\<exists>recs. verify_logged env blob = ((False, None), recs)
              \<and> length recs \<le> 1 \<and> (recs = [] \<longleftrightarrow> blob = []))"
proof (cases "verify_body env blob")
  case (Inl e)
  then have "blob \<noteq> []" by (auto simp: verify_body_def)
  with Inl show ?thesis by (simp add: verify_logged_def)
next
  case (Inr r)
  obtain v recs where r: "r = (v, recs)" by (cases r)
  from verify_body_records [OF Inr [unfolded r]] show ?thesis
    by (auto simp: verify_logged_def Inr r)
qed

lemma fields_date1_rest:
  "field_of (ustr ''auth_date=1'') ''query_id'' = None"
  "field_of (ustr ''auth_date=1'') ''chat_type'' = None"
  "field_of (ustr ''auth_date=1'') ''chat_instance'' = None"
  by (simp_all add: parse_eval)

lemma verify_logged_date1:
  assumes "BOT_TOKEN env = sample_token"
  shows "verify_logged env (signed_blob sample_token (ustr ''auth_date=1'')) =
           (if now env - 1 > 86400 then ((False, None), [Warning_auth_date_too_old (now env - 1)])
            else ((True, Some \<lparr>user = JNull, auth_date = Some (ustr ''1''), query_id = None,
                               chat_type = None, chat_instance = None\<rparr>), []))"
  using compare_digest_same [OF signed_date1(4)] field_nonempty_blob [OF signed_date1(1)]
  unfolding verify_logged_def verify_body_eq auth_date_expired_field parse_user_field
  by (simp add: signed_date1 fields_date1 fields_date1_rest assms on_ok_simps py_int_samples)

text \<open>
  Claim C7, as amended. The verifier never passes an exception on: for every input it
  returns \<open>(True, data)\<close> or \<open>(False, None)\<close>. The exceptions that can arise inside its
  body are a \<open>UnicodeEncodeError\<close> of \<open>encode\<close>, the \<open>TypeError\<close> of \<open>compare_digest\<close>, the
  \<open>ValueError\<close> of \<open>int\<close> and the error of \<open>json.loads\<close>, and each is caught, logged as an
  error and answered with \<open>(False, None)\<close>; a malformed query string raises nothing, since
  no lookup in the parsed dictionary and no step of the loop fails. In particular a
  non-integer auth_date and an unparseable user object under a valid signature end as
  \<open>(False, None)\<close>. The function is not free of effects: it reads the clock, and it
  writes log records, exactly one whenever it rejects a non-empty blob and none when it
  accepts or is given the empty blob.
\<close>

theorem verify_catches_exceptions:
  "((\<exists>data. verify_logged env blob = ((True, Some data), []))
      \<or> (\<exists>recs. verify_logged env blob = ((False, None), recs)
                 \<and> length recs \<le> 1 \<and> (recs = [] \<longleftrightarrow> blob = [])))
   \<and> (verify_body env blob = Inl e \<longrightarrow>
        (e = UnicodeEncodeError \<or> e = TypeError \<or> e = ValueError \<or> e = JSONDecodeError)
        \<and> verify_logged env blob = ((False, None), [Error_verifying e]))
   \<and> (blob \<noteq> [] \<and> field_of blob ''hash'' = None
        \<longrightarrow> verify_logged env blob = ((False, None), [Warning_no_hash]))
   \<and> (field_of blob ''hash'' = Some h
        \<and> calculated_hash (BOT_TOKEN env) (canonical_check_string blob) = Inr h
        \<and> field_of blob ''auth_date'' = Some s \<and> py_int s = None
        \<longrightarrow> verify_logged env blob = ((False, None), [Error_verifying ValueError]))
   \<and> (field_of blob ''hash'' = Some h
        \<and> calculated_hash (BOT_TOKEN env) (canonical_check_string blob) = Inr h
        \<and> (\<forall>s. field_of blob ''auth_date'' = Some s
                \<longrightarrow> (\<exists>a. py_int s = Some a \<and> now env - a \<le> 86400))
        \<and> field_of blob ''user'' = Some u \<and> json_loads env u = None
        \<longrightarrow> verify_logged env blob = ((False, None), [Error_verifying JSONDecodeError]))"
proof (intro conjI impI)
  show "(\<exists>data. verify_logged env blob = ((True, Some data), []))
      \<or> (\<exists>recs. verify_logged env blob = ((False, None), recs)
                 \<and> length recs \<le> 1 \<and> (recs = [] \<longleftrightarrow> blob = []))"
    by (rule verify_logged_shape)
  show "e = UnicodeEncodeError \<or> e = TypeError \<or> e = ValueError \<or> e = JSONDecodeError"
    if "verify_body env blob = Inl e"
    using that by (rule verify_body_errors)
  show "verify_logged env blob = ((False, None), [Error_verifying e])"
    if "verify_body env blob = Inl e"
    using that by (simp add: verify_logged_def)
  show "verify_logged env blob = ((False, None), [Warning_no_hash])"
    if "blob \<noteq> [] \<and> field_of blob ''hash'' = None"
    using that by (simp add: verify_logged_def verify_body_eq)
  show "verify_logged env blob = ((False, None), [Error_verifying ValueError])"
    if "field_of blob ''hash'' = Some h
        \<and> calculated_hash (BOT_TOKEN env) (canonical_check_string blob) = Inr h
        \<and> field_of blob ''auth_date'' = Some s \<and> py_int s = None"
    using that compare_digest_same [of "BOT_TOKEN env" "canonical_check_string blob" h]
      field_nonempty_blob [of blob "''hash''" h]
    unfolding verify_logged_def verify_body_eq auth_date_expired_field
    by (simp add: on_ok_simps)
  show "verify_logged env blob = ((False, None), [Error_verifying JSONDecodeError])"
    if "field_of blob ''hash'' = Some h
        \<and> calculated_hash (BOT_TOKEN env) (canonical_check_string blob) = Inr h
        \<and> (\<forall>s. field_of blob ''auth_date'' = Some s
                \<longrightarrow> (\<exists>a. py_int s = Some a \<and> now env - a \<le> 86400))
        \<and> field_of blob ''user'' = Some u \<and> json_loads env u = None"
    using that compare_digest_same [of "BOT_TOKEN env" "canonical_check_string blob" h]
      field_nonempty_blob [of blob "''hash''" h]
    unfolding verify_logged_def verify_body_eq auth_date_expired_field parse_user_field
    by (auto simp: on_ok_simps split: option.splits)
qed

text \<open>
  The theorem at three blobs under the sample configuration: a signed one with
  \<open>auth_date=abc\<close>, a signed one whose user object is the text \<open>{\<close>, and the unsigned
  text \<open>garbage\<close>.
\<close>

theorem verify_catches_exceptions_witness:
  "verify_logged sample_env (signed_blob sample_token (ustr ''auth_date=abc''))
       = ((False, None), [Error_verifying ValueError])
   \<and> verify_logged sample_env (signed_blob sample_token (ustr ''user=%7B''))
       = ((False, None), [Error_verifying JSONDecodeError])
   \<and> verify_logged sample_env (ustr ''garbage'') = ((False, None), [Warning_no_hash])"
proof -
  note a = verify_catches_exceptions [of sample_env "signed_blob sample_token (ustr ''auth_date=abc'')"
      ValueError "signature_of sample_token (ustr ''auth_date=abc'')" "ustr ''abc''"]
  note b = verify_catches_exceptions [of sample_env "signed_blob sample_token (ustr ''user=%7B'')"
      JSONDecodeError "signature_of sample_token (ustr ''user={'')" _ "ustr ''{''"]
  note c = verify_catches_exceptions [of sample_env "ustr ''garbage''"]
  have 1: "verify_logged sample_env (signed_blob sample_token (ustr ''auth_date=abc''))
       = ((False, None), [Error_verifying ValueError])"
    using a by (simp add: signed_date_abc fields_date_abc py_int_samples sample_env_simps)
  have 2: "verify_logged sample_env (signed_blob sample_token (ustr ''user=%7B''))
       = ((False, None), [Error_verifying JSONDecodeError])"
    using b
    by (simp add: signed_user_brace fields_user_brace sample_json_loads_brace sample_env_simps)
  have g: "field_of (ustr ''garbage'') ''hash'' = None" "ustr ''garbage'' \<noteq> []"
    by (simp_all add: parse_eval)
  have 3: "verify_logged sample_env (ustr ''garbage'') = ((False, None), [Warning_no_hash])"
    using c g by simp
  show ?thesis using 1 2 3 by simp
qed

text \<open>
  Claim C7 as stated fails in its first half. One and the same blob, \<open>auth_date=1\<close>
  signed under the sample token, is accepted when the clock reads 86401 and rejected when
  it reads 86402, the configuration being otherwise the same: the result is not a function
  of the input. And the second call writes a record to the log.
\<close>

theorem verify_catches_exceptions_counterexample:
  "verify_logged sample_env (signed_blob sample_token (ustr ''auth_date=1''))
     = ((True, Some \<lparr>user = JNull, auth_date = Some (ustr ''1''), query_id = None,
                     chat_type = None, chat_instance = None\<rparr>), [])
   \<and> verify_logged (sample_env\<lparr>now := 86402\<rparr>) (signed_blob sample_token (ustr ''auth_date=1''))
     = ((False, None), [Warning_auth_date_too_old 86401])
   \<and> verify_telegram_init_data sample_env (signed_blob sample_token (ustr ''auth_date=1''))
     \<noteq> verify_telegram_init_data (sample_env\<lparr>now := 86402\<rparr>)
         (signed_blob sample_token (ustr ''auth_date=1''))"
  by (simp add: verify_telegram_init_data_def verify_logged_date1 sample_env_simps)

section \<open>Identity resolution\<close>

lemma py_int_empty: "py_int [] = None"
  by (simp add: py_int_def int_strip_def)

lemma verify_no_hash:
  "field_of blob ''hash'' = None \<Longrightarrow> verify_telegram_init_data env blob = (False, None)"
  by (simp add: verify_value verify_body_eq)

text \<open>
  \<open>int\<close> reads the decimal digits of every script and does not skip the separators
  U+001C to U+001F; header names match whatever the case of their letters.
\<close>

lemma py_int_unicode:
  "py_int [0x667] = Some 7" "py_int [0x661, 0x662] = Some 12" "py_int [28, 55] = None"
  by (simp_all add: int_eval)

lemma header_get_samples:
  "header_get [(ustr ''x-user-id'', v)] (ustr ''X-User-Id'') = Some v"
  "header_get [(ustr ''X-USER-ID'', v)] (ustr ''X-User-Id'') = Some v"
  "header_get [(ustr ''X-User-Id'', v)] (ustr ''X-User-Id'') = Some v"
  "header_get [(ustr ''X-User-Id'', v)] (ustr ''X-Telegram-Init-Data'') = None"
  "header_get [] name = None"
  by (simp_all add: header_get_def ascii_lower_def ustr_def)

text \<open>
  Claim C9, as amended. For every request whose X-Telegram-Init-Data header is absent or
  empty, fails verification, or verifies but carries no user object (or an empty one),
  identity resolution does not reject the request: a parseable integer X-User-Id header is
  returned as the caller id, and without such a header a parseable integer user_id query
  parameter is. Headers are found whatever the case of their names, and an integer is
  what \<open>int\<close> parses. No configuration value is consulted on the way: the statement
  holds for every configuration.
\<close>

theorem direct_id_fallback:
  assumes "init_data = (case header_get (headers req) (ustr ''X-Telegram-Init-Data'') of
                          None \<Rightarrow> [] | Some s \<Rightarrow> s)"
    and "init_data = [] \<or> \<not> fst (verify_telegram_init_data env init_data)
         \<or> (\<exists>data. verify_telegram_init_data env init_data = (True, Some data)
                \<and> \<not> py_truthy (user data))"
  shows "(header_get (headers req) (ustr ''X-User-Id'') = Some h \<and> py_int h = Some n
            \<longrightarrow> get_user_id_from_request env req = Inr (JInt n))
       \<and> ((header_get (headers req) (ustr ''X-User-Id'') = None
             \<or> (\<exists>h'. header_get (headers req) (ustr ''X-User-Id'') = Some h' \<and> py_int h' = None))
           \<and> map_of (query req) (ustr ''user_id'') = Some q \<and> py_int q = Some m
            \<longrightarrow> get_user_id_from_request env req = Inr (JInt m))"
proof -
  have skip: "(if init_data \<noteq> [] then
                 (case verify_telegram_init_data env init_data of
                    (True, Some data) \<Rightarrow>
                      if py_truthy (user data) then Some (py_get (user data) (ustr ''id'') JNull)
                      else None
                  | _ \<Rightarrow> None)
               else None) = None"
    using assms(2) verify_invalid_shape [of env init_data]
    by (auto split: prod.splits bool.splits option.splits)
  show ?thesis
    unfolding get_user_id_from_request_def assms(1) [symmetric] Let_def skip
    by (auto simp: py_int_empty split: option.splits)
qed

lemma fields_garbage: "field_of (ustr ''garbage'') ''hash'' = None"
  by (simp add: parse_eval)

lemma py_int_7: "py_int (ustr ''7'') = Some 7"
  by (simp add: int_eval ustr_def)

lemma header_get_two:
  "header_get [(ustr ''x-telegram-init-data'', b), (ustr ''x-user-id'', v)]
     (ustr ''X-Telegram-Init-Data'') = Some b"
  "header_get [(ustr ''x-telegram-init-data'', b), (ustr ''x-user-id'', v)]
     (ustr ''X-User-Id'') = Some v"
  "header_get [(ustr ''X-Telegram-Init-Data'', b), (ustr ''X-User-Id'', v)]
     (ustr ''X-Telegram-Init-Data'') = Some b"
  "header_get [(ustr ''X-Telegram-Init-Data'', b), (ustr ''X-User-Id'', v)]
     (ustr ''X-User-Id'') = Some v"
  by (simp_all add: header_get_def ascii_lower_def ustr_def)

text \<open>
  The theorem at a request with an unsigned blob and the header \<open>x-user-id\<close>, in lower
  case, whose value is the Arabic-Indic digit seven.
\<close>

theorem direct_id_fallback_witness:
  "\<not> fst (verify_telegram_init_data sample_env (ustr ''garbage''))
   \<and> get_user_id_from_request sample_env
        \<lparr>headers = [(ustr ''x-telegram-init-data'', ustr ''garbage''),
                    (ustr ''x-user-id'', [0x667])],
         query = [], body = None\<rparr> = Inr (JInt 7)"
proof -
  have v: "\<not> fst (verify_telegram_init_data sample_env (ustr ''garbage''))"
    by (simp add: verify_no_hash fields_garbage)
  show ?thesis
    using v direct_id_fallback [of "ustr ''garbage''"
        "\<lparr>headers = [(ustr ''x-telegram-init-data'', ustr ''garbage''),
                    (ustr ''x-user-id'', [0x667])],
         query = [], body = None\<rparr>" sample_env "[0x667]" 7]
    by (simp add: py_int_unicode header_get_two)
qed

lemma user_text_eval:
  "unquote (ustr ''%7B%22first_name%22%3A%22x%22%7D'')
     = [123, 34, 102, 105, 114, 115, 116, 95, 110, 97, 109, 101, 34, 58, 34, 120, 34, 125]"
  by (simp add: unquote_def hex_val_def ustr_def)

lemma fields_user_noid:
  "field_of (ustr ''user=%7B%22first_name%22%3A%22x%22%7D'') ''hash'' = None"
  "field_of (ustr ''user=%7B%22first_name%22%3A%22x%22%7D'') ''auth_date'' = None"
  "field_of (ustr ''user=%7B%22first_name%22%3A%22x%22%7D'') ''user''
     = Some (unquote (ustr ''%7B%22first_name%22%3A%22x%22%7D''))"
  "field_of (ustr ''user=%7B%22first_name%22%3A%22x%22%7D'') ''query_id'' = None"
  "field_of (ustr ''user=%7B%22first_name%22%3A%22x%22%7D'') ''chat_type'' = None"
  "field_of (ustr ''user=%7B%22first_name%22%3A%22x%22%7D'') ''chat_instance'' = None"
  "canonical_check_string (ustr ''user=%7B%22first_name%22%3A%22x%22%7D'')
     = ustr ''user='' @ unquote (ustr ''%7B%22first_name%22%3A%22x%22%7D'')"
  unfolding user_text_eval
  by (simp_all add: parse_eval unquote_def hex_val_def)

lemma ascii_user_noid:
  "is_ascii (ustr ''user='' @ unquote (ustr ''%7B%22first_name%22%3A%22x%22%7D''))"
  unfolding user_text_eval by (simp add: ustr_def is_ascii_simps)

lemmas signed_user_noid =
  signed_blob_fields [OF sample_token_ascii, of "ustr ''user=%7B%22first_name%22%3A%22x%22%7D''",
    unfolded fields_user_noid, OF ascii_user_noid refl]

lemma sample_json_loads_noid:
  "sample_json_loads (unquote (ustr ''%7B%22first_name%22%3A%22x%22%7D''))
     = Some (JObj [(ustr ''first_name'', JStr (ustr ''x''))])"
  by (simp add: sample_json_loads_def)

lemma verify_user_noid:
  "verify_telegram_init_data sample_env
     (signed_blob sample_token (ustr ''user=%7B%22first_name%22%3A%22x%22%7D''))
   = (True, Some \<lparr>user = JObj [(ustr ''first_name'', JStr (ustr ''x''))], auth_date = None,
                   query_id = None, chat_type = None, chat_instance = None\<rparr>)"
  using compare_digest_same [OF signed_user_noid(4)] field_nonempty_blob [OF signed_user_noid(1)]
  unfolding verify_value verify_body_eq auth_date_expired_field parse_user_field
  by (simp add: signed_user_noid fields_user_noid sample_env_simps on_ok_simps
        sample_json_loads_noid)

text \<open>
  Claim C9 as stated fails for a blob that verifies and carries a user object without an
  id, here \<open>{"first_name":"x"}\<close>: the function returns \<open>None\<close> from the first branch and
  never looks at the header \<open>X-User-Id: 7\<close>.
\<close>

theorem direct_id_fallback_counterexample:
  "verify_telegram_init_data sample_env
     (signed_blob sample_token (ustr ''user=%7B%22first_name%22%3A%22x%22%7D''))
   = (True, Some \<lparr>user = JObj [(ustr ''first_name'', JStr (ustr ''x''))], auth_date = None,
                   query_id = None, chat_type = None, chat_instance = None\<rparr>)
   \<and> py_int (ustr ''7'') = Some 7
   \<and> get_user_id_from_request sample_env
        \<lparr>headers = [(ustr ''X-Telegram-Init-Data'',
                     signed_blob sample_token (ustr ''user=%7B%22first_name%22%3A%22x%22%7D'')),
                    (ustr ''X-User-Id'', ustr ''7'')],
         query = [], body = None\<rparr> = Inr JNull"
proof -
  have ne: "signed_blob sample_token (ustr ''user=%7B%22first_name%22%3A%22x%22%7D'') \<noteq> []"
    by (simp add: signed_blob_def ustr_def)
  have k: "map_of [(ustr ''first_name'', JStr (ustr ''x''))] (ustr ''id'') = None"
    by (simp add: inj_ustr)
  show ?thesis
    using ne
    by (simp add: get_user_id_from_request_def verify_user_noid py_int_7 k header_get_two inj_ustr)
qed

section \<open>The reading handler\<close>

lemma spec_repo_simps:
  "get_user spec_repo = spec_get_user"
  "increment_forbidden_attempts spec_repo = spec_increment_forbidden_attempts"
  "use_free_request spec_repo = spec_use_free_request"
  "use_premium_request spec_repo = spec_use_premium_request"
  "add_history spec_repo = spec_add_history"
  "get_history spec_repo = spec_get_history"
  "get_total_history_count spec_repo = spec_get_total_history_count"
  "get_user_payments spec_repo = spec_get_user_payments"
  by (simp_all add: spec_repo_def)

lemma balances_increment:
  "balances (spec_increment_forbidden_attempts s uid) x = balances s x"
  by (simp add: balances_def spec_increment_forbidden_attempts_def split: option.splits)

lemma violations_increment:
  "users s uid = Some u \<Longrightarrow>
   violations (spec_increment_forbidden_attempts s uid) uid = Some (forbidden_attempts u + 1)"
  by (simp add: violations_def spec_increment_forbidden_attempts_def)

lemma reading_pre_body_cases:
  assumes "reading_pre_body env db d req = Inr (p, d')"
  shows "d' = d \<or> (\<exists>uid r. d' = increment_forbidden_attempts db d uid \<and> p = Responded r)"
  using assms
  unfolding reading_pre_body_def
  by (auto simp: on_ok_def Let_def split: sum.splits option.splits json.splits if_splits)

lemma reading_pre_cases:
  "snd (reading_pre env db d req) = d
   \<or> (\<exists>uid r. reading_pre env db d req = (Responded r, increment_forbidden_attempts db d uid))"
proof (cases "reading_pre_body env db d req")
  case (Inl e)
  then show ?thesis by (simp add: reading_pre_def)
next
  case (Inr r)
  obtain p d' where r: "r = (p, d')" by (cases r)
  from reading_pre_body_cases [OF Inr [unfolded r]] show ?thesis
    by (auto simp: reading_pre_def Inr r)
qed

lemma reading_pre_awaiting:
  assumes "reading_pre env db d req = (Awaiting call, d')"
  shows "d' = d"
    and "\<exists>u. get_user db d (g_user_id call) = Some u
             \<and> balance_error (g_is_premium call) u = None"
    and "get_user_id_from_request env req = Inr (g_user_id call)"
    and "py_truthy (g_user_id call)"
    and "g_question call \<noteq> [] \<and> length (g_question call) \<le> 300
         \<and> \<not> check_forbidden_keywords env (g_question call)"
proof -
  from assms have b: "reading_pre_body env db d req = Inr (Awaiting call, d')"
    by (auto simp: reading_pre_def split: sum.splits)
  from b show "d' = d"
    unfolding reading_pre_body_def
    by (auto simp: on_ok_def Let_def split: sum.splits option.splits json.splits if_splits)
  from b show "\<exists>u. get_user db d (g_user_id call) = Some u
             \<and> balance_error (g_is_premium call) u = None"
    unfolding reading_pre_body_def
    by (auto simp: on_ok_def Let_def split: sum.splits option.splits json.splits if_splits)
  from b show "get_user_id_from_request env req = Inr (g_user_id call)"
    unfolding reading_pre_body_def
    by (auto simp: on_ok_def Let_def split: sum.splits option.splits json.splits if_splits)
  from b show "py_truthy (g_user_id call)"
    unfolding reading_pre_body_def
    by (auto simp: on_ok_def Let_def split: sum.splits option.splits json.splits if_splits)
  from b show "g_question call \<noteq> [] \<and> length (g_question call) \<le> 300
         \<and> \<not> check_forbidden_keywords env (g_question call)"
    unfolding reading_pre_body_def
    by (auto simp: on_ok_def Let_def split: sum.splits option.splits json.splits if_splits)
qed

lemma reading_post_falsy:
  "\<not> py_truthy response \<Longrightarrow>
   reading_post env db d call (Inr response) = (error_response ''AI service unavailable'' 503, d)"
  by (simp add: reading_post_def reading_post_body_def on_ok_simps)

lemma reading_post_raised:
  "reading_post env db d call (Inl e) = (internal_error e, d)"
  by (simp add: reading_post_def reading_post_body_def on_ok_simps)

lemma reading_post_unreadable:
  "py_truthy response \<Longrightarrow> extract_interpretation response = Inl e \<Longrightarrow>
   reading_post env db d call (Inr response) = (internal_error e, d)"
  by (simp add: reading_post_def reading_post_body_def on_ok_simps)

lemma reading_post_unchanged:
  assumes "snd (reading_post env db d call outcome) \<noteq> d"
  shows "\<exists>response i. outcome = Inr response \<and> py_truthy response
                      \<and> extract_interpretation response = Inr i"
  using assms
  by (cases outcome)
     (auto simp: reading_post_def reading_post_body_def on_ok_def Let_def split: sum.splits if_splits)

lemma reading_effect:
  "(\<exists>c r i. reading_pre env db d req = (Awaiting c, d) \<and> outcome = Inr r \<and> py_truthy r
            \<and> extract_interpretation r = Inr i)
   \<or> snd (handle_reading env db d req outcome) = d
   \<or> (\<exists>u. snd (handle_reading env db d req outcome) = increment_forbidden_attempts db d u)"
proof -
  obtain p d1 where p: "reading_pre env db d req = (p, d1)" by (cases "reading_pre env db d req")
  show ?thesis
  proof (cases p)
    case (Responded r)
    with p reading_pre_cases [of env db d req] show ?thesis
      by (auto simp: handle_reading_def)
  next
    case (Awaiting c')
    with p have d1: "d1 = d" using reading_pre_awaiting(1) [of env db d req c' d1] by simp
    show ?thesis
    proof (cases "snd (reading_post env db d c' outcome) = d")
      case True
      with p Awaiting d1 show ?thesis by (simp add: handle_reading_def)
    next
      case False
      from reading_post_unchanged [OF this] p Awaiting d1 show ?thesis by auto
    qed
  qed
qed

text \<open>
  Claim C3, as amended. For every request that reaches the generator: if the call returns
  a false value (\<open>None\<close>, an empty object), the handler answers 503
  \<open>AI service unavailable\<close> and the repository is the one it started from, so both
  balances are unchanged; if the call raises, or returns a true value from which the text
  cannot be read, the handler answers with the internal error (status 500), again with the
  repository untouched. Whatever happens, unless the call has returned a true value whose
  text could be read, the repository is untouched or has only had the violation counter
  method applied: the two deduction methods are called only after such a result. In the
  repository of the specification, a balance that changed implies such a result.
\<close>

theorem failed_generation_keeps_balance:
  "(reading_pre env db d req = (Awaiting call, d') \<and> \<not> py_truthy response
      \<longrightarrow> handle_reading env db d req (Inr response)
            = (error_response ''AI service unavailable'' 503, d))
   \<and> (reading_pre env db d req = (Awaiting call, d')
      \<longrightarrow> handle_reading env db d req (Inl e) = (internal_error e, d))
   \<and> (reading_pre env db d req = (Awaiting call, d') \<and> py_truthy response
        \<and> extract_interpretation response = Inl e
      \<longrightarrow> handle_reading env db d req (Inr response) = (internal_error e, d))
   \<and> ((\<exists>c r i. reading_pre env db d req = (Awaiting c, d) \<and> outcome = Inr r \<and> py_truthy r
                 \<and> extract_interpretation r = Inr i)
       \<or> snd (handle_reading env db d req outcome) = d
       \<or> (\<exists>u. snd (handle_reading env db d req outcome) = increment_forbidden_attempts db d u))
   \<and> (balances (snd (handle_reading env spec_repo s req outcome)) uid \<noteq> balances s uid
      \<longrightarrow> (\<exists>c r i. reading_pre env spec_repo s req = (Awaiting c, s) \<and> outcome = Inr r
                    \<and> py_truthy r \<and> extract_interpretation r = Inr i))"
proof (intro conjI impI)
  assume a: "reading_pre env db d req = (Awaiting call, d') \<and> \<not> py_truthy response"
  then have "d' = d" using reading_pre_awaiting(1) [of env db d req call d'] by simp
  with a show "handle_reading env db d req (Inr response)
            = (error_response ''AI service unavailable'' 503, d)"
    by (simp add: handle_reading_def reading_post_falsy)
next
  assume a: "reading_pre env db d req = (Awaiting call, d')"
  then have "d' = d" using reading_pre_awaiting(1) [of env db d req call d'] by simp
  with a show "handle_reading env db d req (Inl e) = (internal_error e, d)"
    by (simp add: handle_reading_def reading_post_raised)
next
  assume a: "reading_pre env db d req = (Awaiting call, d') \<and> py_truthy response
        \<and> extract_interpretation response = Inl e"
  then have "d' = d" using reading_pre_awaiting(1) [of env db d req call d'] by simp
  with a show "handle_reading env db d req (Inr response) = (internal_error e, d)"
    by (simp add: handle_reading_def reading_post_unreadable)
next
  show "(\<exists>c r i. reading_pre env db d req = (Awaiting c, d) \<and> outcome = Inr r \<and> py_truthy r
                 \<and> extract_interpretation r = Inr i)
       \<or> snd (handle_reading env db d req outcome) = d
       \<or> (\<exists>u. snd (handle_reading env db d req outcome) = increment_forbidden_attempts db d u)"
    by (rule reading_effect)
next
  assume c: "balances (snd (handle_reading env spec_repo s req outcome)) uid \<noteq> balances s uid"
  with reading_effect [of env spec_repo s req outcome]
  show "\<exists>c r i. reading_pre env spec_repo s req = (Awaiting c, s) \<and> outcome = Inr r
                \<and> py_truthy r \<and> extract_interpretation r = Inr i"
    by (auto simp: spec_repo_simps balances_increment)
qed

subsection \<open>The sample requests\<close>

lemma py_strip_id:
  "s \<noteq> [] \<Longrightarrow> \<not> py_isspace (hd s) \<Longrightarrow> \<not> py_isspace (last s) \<Longrightarrow> py_strip s = s"
proof -
  assume a: "s \<noteq> []" "\<not> py_isspace (hd s)" "\<not> py_isspace (last s)"
  then have 1: "dropWhile py_isspace s = s" by (cases s) auto
  from a have "rev s \<noteq> []" "\<not> py_isspace (hd (rev s))" by (simp_all add: hd_rev)
  then have 2: "dropWhile py_isspace (rev s) = rev s" by (cases "rev s") auto
  show ?thesis by (simp add: py_strip_def 1 2)
qed

lemma strip_what_now: "py_strip (ustr ''What now?'') = ustr ''What now?''"
  by (rule py_strip_id) (simp_all add: ustr_def py_isspace_def)

lemma py_int_8: "py_int (ustr ''8'') = Some 8"
  by (simp add: int_eval ustr_def)

lemma user_id_header:
  "get_user_id_from_request env (reading_request ''7'' q) = Inr (JInt 7)"
  "get_user_id_from_request env (reading_request ''8'' q) = Inr (JInt 8)"
proof -
  have ne: "ustr ''7'' \<noteq> []" "ustr ''8'' \<noteq> []" by (simp_all add: ustr_def)
  show "get_user_id_from_request env (reading_request ''7'' q) = Inr (JInt 7)"
    by (simp add: get_user_id_from_request_def reading_request_def header_get_samples py_int_7 ne)
  show "get_user_id_from_request env (reading_request ''8'' q) = Inr (JInt 8)"
    by (simp add: get_user_id_from_request_def reading_request_def header_get_samples py_int_8 ne)
qed

lemma what_now_allowed: "\<not> check_forbidden_keywords sample_env (ustr ''What now?'')"
  by (simp add: check_forbidden_keywords_def sample_env_def ustr_def)

lemma what_now_length: "ustr ''What now?'' \<noteq> []" "length (ustr ''What now?'') = 9"
  by (simp_all add: ustr_def)

lemma sample_store_users:
  "spec_get_user sample_store (JInt 7) = Some sample_user"
  "spec_get_user sample_store (JInt 8)
     = Some (sample_user\<lparr>is_banned := True, agreed_rules := False\<rparr>)"
  "spec_get_history sample_store uid n m = []"
  by (simp_all add: spec_get_user_def sample_store_def spec_get_history_def user_history_def)

lemma sample_user_balance:
  "balance_error (JBool False) sample_user = None"
  "balance_error (JBool False) (sample_user\<lparr>is_banned := True, agreed_rules := False\<rparr>) = None"
  "username sample_user = JStr (ustr ''ann'')"
  by (simp_all add: balance_error_def sample_user_def)

lemma sample_cards:
  "choose_cards env (JArr [JStr (ustr ''The Fool'')]) n = Inr (JArr [JStr (ustr ''The Fool'')])"
  by (simp add: choose_cards_def on_ok_simps)

lemma sample_body:
  "body (reading_request uid q)
     = Some (JObj [(ustr ''question'', JStr q), (ustr ''cards'', JArr [JStr (ustr ''The Fool'')])])"
  "dict_get [(ustr ''question'', JStr q), (ustr ''cards'', JArr [JStr (ustr ''The Fool'')])]
     (ustr ''question'') dflt = JStr q"
  "dict_get [(ustr ''question'', JStr q), (ustr ''cards'', JArr [JStr (ustr ''The Fool'')])]
     (ustr ''cards'') dflt = JArr [JStr (ustr ''The Fool'')]"
  "dict_get [(ustr ''question'', JStr q), (ustr ''cards'', JArr [JStr (ustr ''The Fool'')])]
     (ustr ''cards_count'') dflt = dflt"
  "dict_get [(ustr ''question'', JStr q), (ustr ''cards'', JArr [JStr (ustr ''The Fool'')])]
     (ustr ''reading_type'') dflt = dflt"
  "dict_get [(ustr ''question'', JStr q), (ustr ''cards'', JArr [JStr (ustr ''The Fool'')])]
     (ustr ''use_premium'') dflt = dflt"
  by (simp_all add: reading_request_def dict_get_def inj_ustr)

lemma reading_pre_sample:
  "reading_pre sample_env spec_repo sample_store (reading_request ''7'' (ustr ''What now?''))
     = (Awaiting (sample_call 7), sample_store)"
  "reading_pre sample_env spec_repo sample_store (reading_request ''8'' (ustr ''What now?''))
     = (Awaiting (sample_call 8), sample_store)"
  using what_now_allowed
  by (simp_all add: reading_pre_def reading_pre_body_def user_id_header on_ok_simps
       strip_what_now Let_def sample_body what_now_length sample_store_users sample_user_balance
       sample_cards history_context_def sample_call_def spec_repo_simps)

lemma balances_sample: "balances sample_store (JInt 7) = Some (1, 0)"
  by (simp add: balances_def sample_store_def sample_user_def)

lemma extract_good: "extract_interpretation good_answer = Inr (JStr (ustr ''ok''))"
  by (simp add: extract_interpretation_def good_answer_def on_ok_simps inj_ustr)

lemma good_truthy: "py_truthy good_answer"
  by (simp add: good_answer_def)

lemma sample_call_simps:
  "g_user_id (sample_call n) = JInt n" "g_is_premium (sample_call n) = JBool False"
  by (simp_all add: sample_call_def)

lemma reading_good_balance:
  "balances (snd (handle_reading sample_env spec_repo sample_store
       (reading_request ''7'' (ustr ''What now?'')) (Inr good_answer))) (JInt 7) = Some (0, 0)"
  by (simp add: handle_reading_def reading_pre_sample reading_post_def reading_post_body_def
        on_ok_simps extract_good Let_def sample_call_simps spec_repo_simps good_truthy)
     (simp add: balances_def spec_add_history_def spec_use_free_request_def sample_store_def
        sample_user_def)

lemma extract_empty_choices: "extract_interpretation answer_with_empty_choices = Inl IndexError"
  by (simp add: extract_interpretation_def answer_with_empty_choices_def on_ok_simps inj_ustr)

lemma extract_rate_limited: "extract_interpretation answer_rate_limited = Inr (JStr [])"
  by (simp add: extract_interpretation_def answer_rate_limited_def on_ok_simps inj_ustr)

lemma unusable_truthy: "py_truthy answer_with_empty_choices" "py_truthy answer_rate_limited"
  by (simp_all add: answer_with_empty_choices_def answer_rate_limited_def)

lemma reading_rate_limited:
  "status (fst (handle_reading sample_env spec_repo sample_store
       (reading_request ''7'' (ustr ''What now?'')) (Inr answer_rate_limited))) = 200"
  "balances (snd (handle_reading sample_env spec_repo sample_store
       (reading_request ''7'' (ustr ''What now?'')) (Inr answer_rate_limited))) (JInt 7)
     = Some (0, 0)"
  by (simp_all add: handle_reading_def reading_pre_sample reading_post_def reading_post_body_def
        on_ok_simps extract_rate_limited Let_def sample_call_simps spec_repo_simps unusable_truthy
        json_response_def)
     (simp add: balances_def spec_add_history_def spec_use_free_request_def sample_store_def
        sample_user_def)

text \<open>
  The theorem at the question \<open>What now?\<close> of user 7: with the result \<open>None\<close> the answer
  is 503, with a generator that raises and with the result \<open>{"choices": []}\<close> it is the
  internal error, and the repository is unchanged each time; with a completion the
  balance changes.
\<close>

theorem failed_generation_keeps_balance_witness:
  "reading_pre sample_env spec_repo sample_store (reading_request ''7'' (ustr ''What now?''))
     = (Awaiting (sample_call 7), sample_store)
   \<and> \<not> py_truthy JNull
   \<and> handle_reading sample_env spec_repo sample_store
        (reading_request ''7'' (ustr ''What now?'')) (Inr JNull)
       = (error_response ''AI service unavailable'' 503, sample_store)
   \<and> handle_reading sample_env spec_repo sample_store
        (reading_request ''7'' (ustr ''What now?'')) (Inl OtherError)
       = (internal_error OtherError, sample_store)
   \<and> handle_reading sample_env spec_repo sample_store
        (reading_request ''7'' (ustr ''What now?'')) (Inr answer_with_empty_choices)
       = (internal_error IndexError, sample_store)
   \<and> balances (snd (handle_reading sample_env spec_repo sample_store
         (reading_request ''7'' (ustr ''What now?'')) (Inr good_answer))) (JInt 7)
       \<noteq> balances sample_store (JInt 7)
   \<and> py_truthy good_answer"
proof -
  note t = failed_generation_keeps_balance [of sample_env spec_repo sample_store
      "reading_request ''7'' (ustr ''What now?'')" "sample_call 7" sample_store]
  note a = t [of JNull OtherError "Inr good_answer" sample_store "JInt 7"]
  note b = t [of answer_with_empty_choices IndexError "Inr good_answer" sample_store "JInt 7"]
  show ?thesis
    using a b
    by (simp add: reading_pre_sample reading_good_balance balances_sample good_truthy
          extract_empty_choices unusable_truthy)
qed

text \<open>
  Claim C3 as stated fails at results that are true and yet hold no text. With the
  result \<open>{"choices": []}\<close> the handler answers 500, not 503. With the error report
  \<open>{"error": "rate limit"}\<close> it answers 200 and the free balance of user 7 goes from
  1 to 0: a unit is consumed although no text was produced.
\<close>

theorem failed_generation_keeps_balance_counterexample:
  "handle_reading sample_env spec_repo sample_store
        (reading_request ''7'' (ustr ''What now?'')) (Inr answer_with_empty_choices)
       = (internal_error IndexError, sample_store)
   \<and> status (internal_error IndexError) = 500
   \<and> balances sample_store (JInt 7) = Some (1, 0)
   \<and> status (fst (handle_reading sample_env spec_repo sample_store
        (reading_request ''7'' (ustr ''What now?'')) (Inr answer_rate_limited))) = 200
   \<and> balances (snd (handle_reading sample_env spec_repo sample_store
        (reading_request ''7'' (ustr ''What now?'')) (Inr answer_rate_limited))) (JInt 7)
       = Some (0, 0)"
proof -
  have "handle_reading sample_env spec_repo sample_store
        (reading_request ''7'' (ustr ''What now?'')) (Inr answer_with_empty_choices)
       = (internal_error IndexError, sample_store)"
    by (simp add: handle_reading_def reading_pre_sample reading_post_unreadable unusable_truthy
          extract_empty_choices)
  then show ?thesis
    by (simp add: balances_sample reading_rate_limited internal_error_def json_response_def)
qed

text \<open>
  Claim C10. For every request that reaches the generator and on which it returns a
  non-empty object without the key \<open>choices\<close>, the handler goes on as after a success: it
  calls the deduction method of the chosen balance, appends a history record whose
  produced content is the empty string, and answers success with an empty interpretation.
\<close>

theorem missing_choices_still_charged:
  assumes "reading_pre env db d req = (Awaiting call, d')"
    and "kvs \<noteq> []" and "map_of kvs (ustr ''choices'') = None"
  shows "handle_reading env db d req (Inr (JObj kvs)) =
     (json_response
        [(ustr ''success'', JBool True),
         (ustr ''reading'',
          JObj [(ustr ''cards'', g_cards call), (ustr ''interpretation'', JStr []),
                (ustr ''reading_type'', g_reading_type call),
                (ustr ''is_premium'', g_is_premium call)])] 200,
      add_history db
        (if py_truthy (g_is_premium call) then use_premium_request db d (g_user_id call)
         else use_free_request db d (g_user_id call))
        \<lparr>i_user_id = g_user_id call, i_question = g_question call,
         i_cards = json_dumps env (g_cards call), i_response = JStr [],
         i_reading_type = g_reading_type call, i_is_premium = g_is_premium call\<rparr>)"
proof -
  have "d' = d" using reading_pre_awaiting(1) [OF assms(1)] .
  then show ?thesis
    using assms
    by (simp add: handle_reading_def reading_post_def reading_post_body_def on_ok_simps
          extract_interpretation_def Let_def)
qed

text \<open>
  The theorem at the answer \<open>{"error": "overloaded"}\<close>: in the repository of the
  specification the free balance of user 7 goes from 1 to 0 and the history gains a record
  with empty content.
\<close>

theorem missing_choices_still_charged_witness:
  "reading_pre sample_env spec_repo sample_store (reading_request ''7'' (ustr ''What now?''))
     = (Awaiting (sample_call 7), sample_store)
   \<and> fst (handle_reading sample_env spec_repo sample_store
          (reading_request ''7'' (ustr ''What now?'')) (Inr answer_without_choices))
       = json_response
           [(ustr ''success'', JBool True),
            (ustr ''reading'',
             JObj [(ustr ''cards'', JArr [JStr (ustr ''The Fool'')]),
                   (ustr ''interpretation'', JStr []),
                   (ustr ''reading_type'', JStr (ustr ''classic'')),
                   (ustr ''is_premium'', JBool False)])] 200
   \<and> balances sample_store (JInt 7) = Some (1, 0)
   \<and> balances (snd (handle_reading sample_env spec_repo sample_store
          (reading_request ''7'' (ustr ''What now?'')) (Inr answer_without_choices))) (JInt 7)
       = Some (0, 0)
   \<and> map i_response (history (snd (handle_reading sample_env spec_repo sample_store
          (reading_request ''7'' (ustr ''What now?'')) (Inr answer_without_choices))))
       = [JStr []]"
proof -
  have k: "map_of [(ustr ''error'', JStr (ustr ''overloaded''))] (ustr ''choices'') = None"
    by (simp add: inj_ustr)
  note t = missing_choices_still_charged [OF reading_pre_sample(1), of
      "[(ustr ''error'', JStr (ustr ''overloaded''))]", OF _ k, simplified]
  show ?thesis
    unfolding answer_without_choices_def t
    by (simp add: reading_pre_sample balances_sample spec_repo_simps)
       (simp add: sample_call_def balances_def spec_add_history_def spec_use_free_request_def
          sample_store_def sample_user_def)
qed

lemma reading_pre_forbidden:
  assumes "get_user_id_from_request env req = Inr uid" and "py_truthy uid"
    and "body req = Some (JObj kvs)"
    and "dict_get kvs (ustr ''question'') (JStr []) = JStr q"
    and "py_strip q \<noteq> []" and "length (py_strip q) \<le> 300"
    and "check_forbidden_keywords env (py_strip q)"
  shows "reading_pre env db d req =
     (Responded (json_response
        [(ustr ''success'', JBool False), (ustr ''error'', JStr (ustr ''forbidden_keywords'')),
         (ustr ''message'', JStr forbidden_message)] 400),
      increment_forbidden_attempts db d uid)"
  using assms
  by (simp add: reading_pre_def reading_pre_body_def on_ok_simps Let_def)

text \<open>
  Claim C6, as amended. For every request of an identified caller whose body is an object
  and whose question, trimmed, is not empty, has at most 300 characters and matches the
  forbidden-topic pattern, the handler answers 400 with the error code
  \<open>forbidden_keywords\<close>, which no other 400 answer of the handler carries, calls the
  violation counter method once and no other writing method. In the repository of the
  specification the counter of an existing user rises by exactly 1 and both balances of
  every user stay as they were.
\<close>

theorem forbidden_question_rejected:
  assumes "get_user_id_from_request env req = Inr uid" and "py_truthy uid"
    and "body req = Some (JObj kvs)"
    and "dict_get kvs (ustr ''question'') (JStr []) = JStr q"
    and "py_strip q \<noteq> []" and "length (py_strip q) \<le> 300"
    and "check_forbidden_keywords env (py_strip q)"
  shows "handle_reading env db d req outcome =
           (json_response
              [(ustr ''success'', JBool False), (ustr ''error'', JStr (ustr ''forbidden_keywords'')),
               (ustr ''message'', JStr forbidden_message)] 400,
            increment_forbidden_attempts db d uid)
         \<and> ustr ''forbidden_keywords'' \<notin>
             {ustr ''Question is required'', ustr ''Question too long (max 300 chars)'',
              ustr ''no_premium_requests'', ustr ''no_free_requests''}
         \<and> (users s uid = Some u \<longrightarrow>
               violations (snd (handle_reading env spec_repo s req outcome)) uid
                 = Some (forbidden_attempts u + 1))
         \<and> balances (snd (handle_reading env spec_repo s req outcome)) x = balances s x"
  by (simp add: handle_reading_def reading_pre_forbidden [OF assms] inj_ustr spec_repo_simps
        balances_increment violations_increment)

lemma strip_my_death: "py_strip (ustr ''my death'') = ustr ''my death''"
  by (rule py_strip_id) (simp_all add: ustr_def py_isspace_def)

lemma my_death_forbidden: "check_forbidden_keywords sample_env (ustr ''my death'')"
  by (simp add: check_forbidden_keywords_def sample_env_def ustr_def)

lemma my_death_length: "ustr ''my death'' \<noteq> []" "length (ustr ''my death'') = 8"
  by (simp_all add: ustr_def)

lemma sample_store_row: "users sample_store (JInt 7) = Some sample_user"
  by (simp add: sample_store_def)

text \<open>The theorem at the question \<open>my death\<close> of user 7.\<close>

theorem forbidden_question_rejected_witness:
  "get_user_id_from_request sample_env (reading_request ''7'' (ustr ''my death'')) = Inr (JInt 7)
   \<and> check_forbidden_keywords sample_env (py_strip (ustr ''my death''))
   \<and> fst (handle_reading sample_env spec_repo sample_store
          (reading_request ''7'' (ustr ''my death'')) (Inr good_answer))
       = json_response
           [(ustr ''success'', JBool False), (ustr ''error'', JStr (ustr ''forbidden_keywords'')),
            (ustr ''message'', JStr forbidden_message)] 400
   \<and> violations sample_store (JInt 7) = Some 0
   \<and> violations (snd (handle_reading sample_env spec_repo sample_store
          (reading_request ''7'' (ustr ''my death'')) (Inr good_answer))) (JInt 7) = Some 1
   \<and> balances (snd (handle_reading sample_env spec_repo sample_store
          (reading_request ''7'' (ustr ''my death'')) (Inr good_answer))) (JInt 7)
       = balances sample_store (JInt 7)"
proof -
  note t = forbidden_question_rejected [of sample_env "reading_request ''7'' (ustr ''my death'')"
      "JInt 7" "[(ustr ''question'', JStr (ustr ''my death'')),
                 (ustr ''cards'', JArr [JStr (ustr ''The Fool'')])]" "ustr ''my death''"
      spec_repo sample_store "Inr good_answer" sample_store sample_user "JInt 7",
      OF user_id_header(1) _ sample_body(1) sample_body(2)]
  have v0: "violations sample_store (JInt 7) = Some 0"
    by (simp add: violations_def sample_store_def sample_user_def)
  have f0: "forbidden_attempts sample_user = 0" by (simp add: sample_user_def)
  show ?thesis
    using t
    by (simp add: strip_my_death my_death_forbidden my_death_length user_id_header
          sample_store_row v0 f0 spec_repo_simps balances_increment
          violations_increment [OF sample_store_row])
qed

lemma strip_long: "py_strip long_question = long_question"
  by (rule py_strip_id) (simp_all add: long_question_def ustr_def py_isspace_def)

lemma long_forbidden: "check_forbidden_keywords sample_env long_question"
  by (simp add: check_forbidden_keywords_def sample_env_def long_question_def ustr_def)

lemma long_length: "long_question \<noteq> []" "length long_question = 301"
  by (simp_all add: long_question_def ustr_def)

text \<open>
  Claim C6 as stated fails at a question of 301 characters that names a forbidden topic:
  the length check comes first, the answer is \<open>Question too long\<close> and the violation
  counter stays at 0.
\<close>

theorem forbidden_question_rejected_counterexample:
  "check_forbidden_keywords sample_env (py_strip long_question)
   \<and> length (py_strip long_question) = 301
   \<and> handle_reading sample_env spec_repo sample_store
        (reading_request ''7'' long_question) (Inr good_answer)
       = (error_response ''Question too long (max 300 chars)'' 400, sample_store)
   \<and> violations sample_store (JInt 7) = Some 0"
  by (simp add: strip_long long_forbidden long_length handle_reading_def reading_pre_def
        reading_pre_body_def user_id_header on_ok_simps Let_def sample_body)
     (simp add: violations_def sample_store_def sample_user_def)

lemma with_flags_simps:
  "get_user (with_flags f db) d uid
     = map_option (\<lambda>u. u\<lparr>is_banned := fst (f uid), agreed_rules := snd (f uid)\<rparr>) (get_user db d uid)"
  "increment_forbidden_attempts (with_flags f db) = increment_forbidden_attempts db"
  "use_free_request (with_flags f db) = use_free_request db"
  "use_premium_request (with_flags f db) = use_premium_request db"
  "add_history (with_flags f db) = add_history db"
  "get_history (with_flags f db) = get_history db"
  by (simp_all add: with_flags_def)

lemma balance_error_flags:
  "balance_error p (u\<lparr>is_banned := b, agreed_rules := a\<rparr>) = balance_error p u"
  by (simp add: balance_error_def)

lemma reading_pre_body_flags:
  "reading_pre_body env (with_flags f db) d req = reading_pre_body env db d req"
  unfolding reading_pre_body_def
  by (auto simp: with_flags_simps balance_error_flags on_ok_def Let_def
        split: sum.splits option.splits json.splits)

lemma reading_post_flags:
  "reading_post env (with_flags f db) d call outcome = reading_post env db d call outcome"
  by (simp add: reading_post_def reading_post_body_def with_flags_simps Let_def cong: if_cong)

lemma handle_reading_flags:
  "handle_reading env (with_flags f db) d req outcome = handle_reading env db d req outcome"
  by (simp add: handle_reading_def reading_pre_def reading_pre_body_flags reading_post_flags
        split: prod.splits reading_progress.splits)

lemma response_statuses:
  "status (error_response m st) = st" "status (json_response kvs st) = st"
  "status (internal_error e) = 500"
  by (simp_all add: error_response_def json_response_def internal_error_def)

lemma balance_error_status: "balance_error p u = Some r \<Longrightarrow> status r = 400"
  by (auto simp: balance_error_def response_statuses split: if_splits)

lemma reading_pre_status:
  "reading_pre env db d req = (Responded r, d') \<Longrightarrow> status r \<in> {400, 401, 404, 500}"
  unfolding reading_pre_def reading_pre_body_def
  by (auto simp: on_ok_def Let_def response_statuses
        split: sum.splits option.splits json.splits if_splits dest: balance_error_status)

lemma reading_post_status: "status (fst (reading_post env db d call outcome)) \<in> {200, 500, 503}"
  unfolding reading_post_def reading_post_body_def
  by (auto simp: on_ok_def Let_def response_statuses split: sum.splits if_splits)

lemma handle_reading_status:
  "status (fst (handle_reading env db d req outcome)) \<in> {200, 400, 401, 404, 500, 503}"
proof -
  obtain p d1 where p: "reading_pre env db d req = (p, d1)" by (cases "reading_pre env db d req")
  show ?thesis
  proof (cases p)
    case (Responded r)
    with p reading_pre_status [of env db d req r d1] show ?thesis
      by (auto simp: handle_reading_def)
  next
    case (Awaiting c)
    with p reading_post_status [of env db d1 c outcome] show ?thesis
      by (auto simp: handle_reading_def)
  qed
qed

text \<open>
  Claim C4, as amended. The handler of a reading never reads the ban flag or the terms
  flag of the user: a repository that reports other flags gives the same answer and the
  same repository state, so a banned user or one who has not agreed to the terms is
  served as any other, and no answer of the handler has status 403.
\<close>

theorem reading_ignores_ban:
  "handle_reading env (with_flags f db) d req outcome = handle_reading env db d req outcome
   \<and> status (fst (handle_reading env db d req outcome)) \<noteq> 403"
  using handle_reading_status [of env db d req outcome]
  by (auto simp: handle_reading_flags)


text \<open>
  The theorem at a repository that reports every user as banned and not agreed: user 7
  gets a reading.
\<close>

theorem reading_ignores_ban_witness:
  "fst (handle_reading sample_env (with_flags (\<lambda>uid. (True, False)) spec_repo) sample_store
          (reading_request ''7'' (ustr ''What now?'')) (Inr good_answer))
     = json_response
         [(ustr ''success'', JBool True),
          (ustr ''reading'',
           JObj [(ustr ''cards'', JArr [JStr (ustr ''The Fool'')]),
                 (ustr ''interpretation'', JStr (ustr ''ok'')),
                 (ustr ''reading_type'', JStr (ustr ''classic'')),
                 (ustr ''is_premium'', JBool False)])] 200"
proof -
  have "fst (handle_reading sample_env spec_repo sample_store
          (reading_request ''7'' (ustr ''What now?'')) (Inr good_answer))
     = json_response
         [(ustr ''success'', JBool True),
          (ustr ''reading'',
           JObj [(ustr ''cards'', JArr [JStr (ustr ''The Fool'')]),
                 (ustr ''interpretation'', JStr (ustr ''ok'')),
                 (ustr ''reading_type'', JStr (ustr ''classic'')),
                 (ustr ''is_premium'', JBool False)])] 200"
    by (simp add: handle_reading_def reading_pre_sample reading_post_def reading_post_body_def
          on_ok_simps extract_good Let_def good_truthy)
       (simp add: sample_call_def)
  then show ?thesis
    using reading_ignores_ban [of sample_env "\<lambda>uid. (True, False)" spec_repo sample_store
        "reading_request ''7'' (ustr ''What now?'')" "Inr good_answer"]
    by simp
qed

text \<open>
  Claim C4 as stated fails at user 8 of the sample repository, who is banned and has not
  agreed to the terms: the request is served with status 200 and the free unit is spent.
\<close>

theorem reading_ignores_ban_counterexample:
  "map_option is_banned (get_user spec_repo sample_store (JInt 8)) = Some True
   \<and> map_option agreed_rules (get_user spec_repo sample_store (JInt 8)) = Some False
   \<and> get_user_id_from_request sample_env (reading_request ''8'' (ustr ''What now?''))
       = Inr (JInt 8)
   \<and> fst (handle_reading sample_env spec_repo sample_store
          (reading_request ''8'' (ustr ''What now?'')) (Inr good_answer))
       = json_response
           [(ustr ''success'', JBool True),
            (ustr ''reading'',
             JObj [(ustr ''cards'', JArr [JStr (ustr ''The Fool'')]),
                   (ustr ''interpretation'', JStr (ustr ''ok'')),
                   (ustr ''reading_type'', JStr (ustr ''classic'')),
                   (ustr ''is_premium'', JBool False)])] 200
   \<and> balances sample_store (JInt 8) = Some (1, 0)
   \<and> balances (snd (handle_reading sample_env spec_repo sample_store
          (reading_request ''8'' (ustr ''What now?'')) (Inr good_answer))) (JInt 8) = Some (0, 0)"
  by (simp add: handle_reading_def reading_pre_sample reading_post_def reading_post_body_def
        on_ok_simps extract_good Let_def good_truthy user_id_header spec_repo_simps
        sample_store_users sample_call_simps)
     (simp add: sample_call_def balances_def spec_add_history_def spec_use_free_request_def
        sample_store_def sample_user_def)

lemma reading_post_good:
  "reading_post sample_env spec_repo s (sample_call 7) (Inr good_answer)
     = (json_response
          [(ustr ''success'', JBool True),
           (ustr ''reading'',
            JObj [(ustr ''cards'', JArr [JStr (ustr ''The Fool'')]),
                  (ustr ''interpretation'', JStr (ustr ''ok'')),
                  (ustr ''reading_type'', JStr (ustr ''classic'')),
                  (ustr ''is_premium'', JBool False)])] 200,
        spec_add_history (spec_use_free_request s (JInt 7))
          \<lparr>i_user_id = JInt 7, i_question = ustr ''What now?'',
           i_cards = json_dumps sample_env (JArr [JStr (ustr ''The Fool'')]),
           i_response = JStr (ustr ''ok''), i_reading_type = JStr (ustr ''classic''),
           i_is_premium = JBool False\<rparr>)"
  by (simp add: reading_post_def reading_post_body_def on_ok_simps extract_good Let_def
        good_truthy spec_repo_simps)
     (simp add: sample_call_def)

lemma reading_pre_spent:
  "reading_pre sample_env spec_repo
     (spec_add_history (spec_use_free_request sample_store (JInt 7)) e)
     (reading_request ''7'' (ustr ''What now?''))
   = (Responded (error_response ''no_free_requests'' 400),
      spec_add_history (spec_use_free_request sample_store (JInt 7)) e)"
proof -
  have u: "spec_get_user (spec_add_history (spec_use_free_request sample_store (JInt 7)) e) (JInt 7)
             = Some (sample_user\<lparr>requests_left := 0\<rparr>)"
    by (simp add: spec_get_user_def spec_add_history_def spec_use_free_request_def
          sample_store_def sample_user_def)
  have b: "balance_error (JBool False) (sample_user\<lparr>requests_left := 0\<rparr>)
             = Some (error_response ''no_free_requests'' 400)"
    by (simp add: balance_error_def)
  show ?thesis
    using what_now_allowed
    by (simp add: reading_pre_def reading_pre_body_def user_id_header on_ok_simps
         strip_what_now Let_def sample_body what_now_length u b spec_repo_simps)
qed

lemma reading_post_success:
  assumes "py_truthy response" and "extract_interpretation response = Inr interpretation"
  shows "reading_post env db d call (Inr response) =
     (json_response
        [(ustr ''success'', JBool True),
         (ustr ''reading'',
          JObj [(ustr ''cards'', g_cards call), (ustr ''interpretation'', interpretation),
                (ustr ''reading_type'', g_reading_type call),
                (ustr ''is_premium'', g_is_premium call)])] 200,
      add_history db
        (if py_truthy (g_is_premium call) then use_premium_request db d (g_user_id call)
         else use_free_request db d (g_user_id call))
        \<lparr>i_user_id = g_user_id call, i_question = g_question call,
         i_cards = json_dumps env (g_cards call), i_response = interpretation,
         i_reading_type = g_reading_type call, i_is_premium = g_is_premium call\<rparr>)"
  using assms
  by (simp add: reading_post_def reading_post_body_def on_ok_simps Let_def)

text \<open>
  Claim C2 fails on the code. When two requests of one user both pass the balance check
  before either returns from the generator, both are answered with success, whatever the
  deduction method of the repository does: the handler does not look at the balance
  again, nor at what the deduction method returns.
\<close>

theorem double_spend_schedule:
  assumes "reading_pre env db d req = (Awaiting call, d')"
    and "py_truthy response" and "extract_interpretation response = Inr interpretation"
  shows "map task_status (fst (run_schedule env db
           [(0, o1), (1, o2), (0, Inr response), (1, Inr response)]
           ([Fresh req, Fresh req], d)))
         = [Some 200, Some 200]"
proof -
  have d: "d' = d" using reading_pre_awaiting(1) [OF assms(1)] .
  show ?thesis
    using assms(1) [unfolded d]
    by (simp add: reading_post_success [OF assms(2,3)] response_statuses)
qed

text \<open>
  The theorem at user 7, whose free balance is 1, in the repository of the specification:
  with the two requests interleaved both succeed and the balance ends at -1; served one
  after the other, the second is refused with \<open>no_free_requests\<close> and the balance ends
  at 0.
\<close>

theorem double_spend_schedule_witness:
  "reading_pre sample_env spec_repo sample_store (reading_request ''7'' (ustr ''What now?''))
     = (Awaiting (sample_call 7), sample_store)
   \<and> balances sample_store (JInt 7) = Some (1, 0)
   \<and> map task_status (fst (run_schedule sample_env spec_repo
       [(0, Inr good_answer), (1, Inr good_answer), (0, Inr good_answer), (1, Inr good_answer)]
       ([Fresh (reading_request ''7'' (ustr ''What now?'')),
         Fresh (reading_request ''7'' (ustr ''What now?''))], sample_store)))
     = [Some 200, Some 200]
   \<and> balances (snd (run_schedule sample_env spec_repo
       [(0, Inr good_answer), (1, Inr good_answer), (0, Inr good_answer), (1, Inr good_answer)]
       ([Fresh (reading_request ''7'' (ustr ''What now?'')),
         Fresh (reading_request ''7'' (ustr ''What now?''))], sample_store))) (JInt 7)
     = Some (- 1, 0)
   \<and> map task_status (fst (run_schedule sample_env spec_repo
       [(0, Inr good_answer), (0, Inr good_answer), (1, Inr good_answer), (1, Inr good_answer)]
       ([Fresh (reading_request ''7'' (ustr ''What now?'')),
         Fresh (reading_request ''7'' (ustr ''What now?''))], sample_store)))
     = [Some 200, Some 400]
   \<and> balances (snd (run_schedule sample_env spec_repo
       [(0, Inr good_answer), (0, Inr good_answer), (1, Inr good_answer), (1, Inr good_answer)]
       ([Fresh (reading_request ''7'' (ustr ''What now?'')),
         Fresh (reading_request ''7'' (ustr ''What now?''))], sample_store))) (JInt 7)
     = Some (0, 0)"
proof -
  note t = double_spend_schedule [OF reading_pre_sample(1) good_truthy extract_good,
      of "Inr good_answer" "Inr good_answer"]
  have rest: "balances (snd (run_schedule sample_env spec_repo
       [(0, Inr good_answer), (1, Inr good_answer), (0, Inr good_answer), (1, Inr good_answer)]
       ([Fresh (reading_request ''7'' (ustr ''What now?'')),
         Fresh (reading_request ''7'' (ustr ''What now?''))], sample_store))) (JInt 7)
     = Some (- 1, 0)
   \<and> map task_status (fst (run_schedule sample_env spec_repo
       [(0, Inr good_answer), (0, Inr good_answer), (1, Inr good_answer), (1, Inr good_answer)]
       ([Fresh (reading_request ''7'' (ustr ''What now?'')),
         Fresh (reading_request ''7'' (ustr ''What now?''))], sample_store)))
     = [Some 200, Some 400]
   \<and> balances (snd (run_schedule sample_env spec_repo
       [(0, Inr good_answer), (0, Inr good_answer), (1, Inr good_answer), (1, Inr good_answer)]
       ([Fresh (reading_request ''7'' (ustr ''What now?'')),
         Fresh (reading_request ''7'' (ustr ''What now?''))], sample_store))) (JInt 7)
     = Some (0, 0)"
    by (simp add: reading_pre_sample reading_post_good reading_pre_spent response_statuses)
       (simp add: balances_def spec_add_history_def spec_use_free_request_def sample_store_def
          sample_user_def)
  show ?thesis using t rest by (simp add: reading_pre_sample balances_sample)
qed

section \<open>The history handler\<close>

lemma ceil_div_aux:
  assumes "1 \<le> (b::int)"
  shows "(a + b - 1) div b = - (- a div b)"
proof -
  from assms have b: "b \<noteq> 0" "0 < b" by simp_all
  have r: "0 \<le> a mod b" "a mod b < b" using b by simp_all
  show ?thesis
  proof (cases "a mod b = 0")
    case True
    have "a = a mod b + b * (a div b)" by simp
    with True have "a = b * (a div b)" by simp
    then have "a + b - 1 = (b - 1) + b * (a div b)" by simp
    then have "(a + b - 1) div b = a div b + (b - 1) div b"
      using b by (metis div_mult_self2 add.commute)
    also have "(b - 1) div b = 0" using b by (simp add: div_pos_pos_trivial)
    finally show ?thesis using True b by (simp add: zdiv_zminus1_eq_if)
  next
    case False
    then have r1: "0 \<le> a mod b - 1" "a mod b - 1 < b" using r by simp_all
    have "a = a mod b + b * (a div b)" by simp
    then have "a + b - 1 = (a mod b - 1) + b * (a div b + 1)" by (simp add: algebra_simps)
    then have "(a + b - 1) div b = (a div b + 1) + (a mod b - 1) div b"
      using b by (metis div_mult_self2)
    also have "(a mod b - 1) div b = 0" using r1 by (simp add: div_pos_pos_trivial)
    finally show ?thesis using False b by (simp add: zdiv_zminus1_eq_if)
  qed
qed

lemma ceil_div:
  assumes "1 \<le> (b::int)"
  shows "(a + b - 1) div b = \<lceil>real_of_int a / real_of_int b\<rceil>"
  by (simp add: ceil_div_aux [OF assms] ceiling_divide_eq_div)

lemma total_pages_ceil:
  assumes "1 \<le> limit" and "0 \<le> t"
  shows "total_pages t limit
           = Inr (if t = 0 then 1 else \<lceil>real_of_int t / real_of_int limit\<rceil>)"
  using assms by (auto simp: total_pages_def ceil_div)

lemma handle_history_ok:
  assumes "get_user_id_from_request env req = Inr uid" and "py_truthy uid"
    and "query_int req ''page'' 0 = Inr page" and "query_int req ''limit'' 10 = Inr limit"
    and "1 \<le> limit" and "0 \<le> get_total_history_count db d uid"
  shows "handle_history env db d req =
     json_response
       [(ustr ''success'', JBool True),
        (ustr ''history'', JArr (map interaction_json (get_history db d uid limit (page * limit)))),
        (ustr ''payments'', JArr (get_user_payments db d uid limit (page * limit))),
        (ustr ''pagination'',
         JObj [(ustr ''page'', JInt page), (ustr ''limit'', JInt limit),
               (ustr ''total'', JInt (get_total_history_count db d uid)),
               (ustr ''total_pages'',
                JInt (if get_total_history_count db d uid = 0 then 1
                      else \<lceil>real_of_int (get_total_history_count db d uid)
                             / real_of_int limit\<rceil>))])] 200"
  using assms
  by (simp add: handle_history_def handle_history_body_def on_ok_simps Let_def
        total_pages_ceil)

lemma spec_history_page:
  assumes "0 \<le> page" and "1 \<le> limit"
  shows "length (get_history spec_repo s uid limit (page * limit))
           = min (nat limit) (length (user_history s uid) - nat (page * limit))"
    and "i < length (get_history spec_repo s uid limit (page * limit)) \<Longrightarrow>
         get_history spec_repo s uid limit (page * limit) ! i
           = user_history s uid ! (nat (page * limit) + i)"
proof -
  show "length (get_history spec_repo s uid limit (page * limit))
           = min (nat limit) (length (user_history s uid) - nat (page * limit))"
    by (simp add: spec_repo_simps spec_get_history_def)
  assume "i < length (get_history spec_repo s uid limit (page * limit))"
  then have i: "i < nat limit" "nat (page * limit) + i < length (user_history s uid)"
    by (auto simp: spec_repo_simps spec_get_history_def)
  then have "nat (page * limit) \<le> length (user_history s uid)" by simp
  with i show "get_history spec_repo s uid limit (page * limit) ! i
           = user_history s uid ! (nat (page * limit) + i)"
    by (simp add: spec_repo_simps spec_get_history_def)
qed

text \<open>
  Claim C8. For every history request of an identified caller with page \<open>\<ge> 0\<close> and
  limit \<open>\<ge> 1\<close>, the pagination object has total_pages = ceil(total / limit), and 1 when
  total = 0, and the handler asks the repository for \<open>limit\<close> records from offset
  page * limit. In the repository of the specification these are the records of the user
  numbered page * limit to page * limit + limit - 1, as far as they exist.
\<close>

theorem history_pagination:
  assumes "get_user_id_from_request env req = Inr uid" and "py_truthy uid"
    and "query_int req ''page'' 0 = Inr page" and "query_int req ''limit'' 10 = Inr limit"
    and "0 \<le> page" and "1 \<le> limit" and "0 \<le> get_total_history_count db d uid"
  shows "handle_history env db d req =
           json_response
             [(ustr ''success'', JBool True),
              (ustr ''history'',
               JArr (map interaction_json (get_history db d uid limit (page * limit)))),
              (ustr ''payments'', JArr (get_user_payments db d uid limit (page * limit))),
              (ustr ''pagination'',
               JObj [(ustr ''page'', JInt page), (ustr ''limit'', JInt limit),
                     (ustr ''total'', JInt (get_total_history_count db d uid)),
                     (ustr ''total_pages'',
                      JInt (if get_total_history_count db d uid = 0 then 1
                            else \<lceil>real_of_int (get_total_history_count db d uid)
                                   / real_of_int limit\<rceil>))])] 200
         \<and> length (get_history spec_repo s uid limit (page * limit))
             = min (nat limit) (length (user_history s uid) - nat (page * limit))
         \<and> (i < length (get_history spec_repo s uid limit (page * limit)) \<longrightarrow>
               get_history spec_repo s uid limit (page * limit) ! i
                 = user_history s uid ! (nat (page * limit) + i))
         \<and> 0 \<le> get_total_history_count spec_repo s uid"
  using handle_history_ok [OF assms(1-4) assms(6,7)] spec_history_page [OF assms(5,6)]
  by (simp add: spec_repo_simps spec_get_total_history_count_def)

lemma history_request_facts:
  "get_user_id_from_request env history_request = Inr (JInt 7)"
  "query_int history_request ''page'' 0 = Inr 1"
  "query_int history_request ''limit'' 10 = Inr 2"
proof -
  have ne: "ustr ''7'' \<noteq> []" by (simp add: ustr_def)
  show "get_user_id_from_request env history_request = Inr (JInt 7)"
    by (simp add: get_user_id_from_request_def history_request_def header_get_samples py_int_7 ne)
  show "query_int history_request ''page'' 0 = Inr 1"
    by (simp add: history_request_def query_int_def inj_ustr) (simp add: ustr_def int_eval)
  show "query_int history_request ''limit'' 10 = Inr 2"
    by (simp add: history_request_def query_int_def inj_ustr) (simp add: ustr_def int_eval)
qed

lemma history_store_facts:
  "user_history history_store (JInt 7)
     = [sample_entry ''first'', sample_entry ''second'', sample_entry ''third'']"
  "get_total_history_count spec_repo history_store (JInt 7) = 3"
  "get_history spec_repo history_store (JInt 7) 2 2 = [sample_entry ''third'']"
  "get_user_payments spec_repo history_store (JInt 7) 2 2 = []"
  by (simp_all add: spec_repo_simps user_history_def history_store_def sample_entry_def
        spec_get_total_history_count_def spec_get_history_def spec_get_user_payments_def)

text \<open>
  The theorem at page 1 with limit 2 over three records: the answer holds the third
  record, and total_pages is 2.
\<close>

theorem history_pagination_witness:
  "get_user_id_from_request sample_env history_request = Inr (JInt 7)
   \<and> query_int history_request ''page'' 0 = Inr 1
   \<and> query_int history_request ''limit'' 10 = Inr 2
   \<and> handle_history sample_env spec_repo history_store history_request =
       json_response
         [(ustr ''success'', JBool True),
          (ustr ''history'', JArr [interaction_json (sample_entry ''third'')]),
          (ustr ''payments'', JArr []),
          (ustr ''pagination'',
           JObj [(ustr ''page'', JInt 1), (ustr ''limit'', JInt 2), (ustr ''total'', JInt 3),
                 (ustr ''total_pages'', JInt 2)])] 200
   \<and> get_history spec_repo history_store (JInt 7) 2 (1 * 2) ! 0
       = sample_entry ''third''
   \<and> user_history history_store (JInt 7) ! 2 = sample_entry ''third''"
proof -
  note t = history_pagination [of sample_env history_request "JInt 7" 1 2 spec_repo
      history_store history_store 0,
      OF history_request_facts(1) _ history_request_facts(2,3)]
  have c: "\<lceil>3 / (2::real)\<rceil> = 2" by (simp add: ceiling_eq_iff)
  show ?thesis
    using t by (simp add: history_request_facts history_store_facts c)
qed

end
